theory Spec2Isabelle
  imports Main
begin

section \<open>JavaScript values\<close>

text \<open>
  Request payloads are JSON: a field holds \<open>undefined\<close> (absent), \<open>null\<close>, a boolean, a
  number, a string or an array. Strings are lists of 8-bit characters read as Latin-1 code
  points, which covers every character the middleware's patterns name. Numbers are exact
  finite decimals \<open>Fin m s\<close> (the value \<open>m / 10^s\<close>), \<open>NaN\<close> or an infinity; a double agrees
  with its exact decimal for every literal of at most 15 significant digits, which includes
  all amounts of the accepted range with two decimals.
\<close>

datatype jsnum = NaN | Inf bool | Fin int nat

datatype jsval =
    JUndefined
  | JNull
  | JBool bool
  | JNum jsnum
  | JStr string
  | JArr "jsval list"

subsection \<open>Characters and strings\<close>

definition is_digit :: "char \<Rightarrow> bool" where
  "is_digit c = (c \<in> set ''0123456789'')"

definition digit_val :: "char \<Rightarrow> int" where
  "digit_val c = of_char c - 48"

definition digit_char :: "int \<Rightarrow> char" where
  "digit_char d = char_of (48 + d)"

text \<open>
  White space as \<open>String.prototype.trim\<close> and the white-space class of patterns see it,
  within Latin-1: tab, line feed, vertical tab, form feed, carriage return, space and the
  no-break space.
\<close>

definition is_space :: "char \<Rightarrow> bool" where
  "is_space c = ((of_char c :: nat) \<in> set [9, 10, 11, 12, 13, 32, 160])"

definition js_trim :: "string \<Rightarrow> string" where
  "js_trim s = rev (dropWhile is_space (rev (dropWhile is_space s)))"

definition lower_char :: "char \<Rightarrow> char" where
  "lower_char c =
     (let n = (of_char c :: nat)
      in if (65 \<le> n \<and> n \<le> 90) \<or> (192 \<le> n \<and> n \<le> 222 \<and> n \<noteq> 215)
         then char_of (n + 32) else c)"

definition toLowerCase :: "string \<Rightarrow> string" where
  "toLowerCase s = map lower_char s"

fun is_prefix :: "string \<Rightarrow> string \<Rightarrow> bool" where
  "is_prefix [] _ = True"
| "is_prefix (p # ps) [] = False"
| "is_prefix (p # ps) (c # cs) = (p = c \<and> is_prefix ps cs)"

text \<open>\<open>String.prototype.includes\<close>: the pattern occurs somewhere in the string.\<close>

fun str_includes :: "string \<Rightarrow> string \<Rightarrow> bool" where
  "str_includes [] p = (p = [])"
| "str_includes (c # cs) p = (is_prefix p (c # cs) \<or> str_includes cs p)"

text \<open>\<open>String.prototype.split\<close> at one separator character.\<close>

fun split_at :: "char \<Rightarrow> string \<Rightarrow> string list" where
  "split_at sep [] = [[]]"
| "split_at sep (c # cs) =
     (if c = sep then [] # split_at sep cs
      else (case split_at sep cs of [] \<Rightarrow> [[c]] | p # ps \<Rightarrow> (c # p) # ps))"

fun join_with :: "string \<Rightarrow> string list \<Rightarrow> string" where
  "join_with sep [] = []"
| "join_with sep [x] = x"
| "join_with sep (x # y # ys) = x @ sep @ join_with sep (y # ys)"

subsection \<open>Numbers\<close>

text \<open>The decimal digits of a natural number, held as an integer.\<close>

function show_nat :: "int \<Rightarrow> string" where
  "show_nat n = (if n < 10 then [digit_char n] else show_nat (n div 10) @ [digit_char (n mod 10)])"
  by pat_completeness auto
termination
  by (relation "measure nat") auto

declare show_nat.simps [simp del]

text \<open>The last \<open>k\<close> decimal digits of \<open>n\<close>, padded with zeros on the left.\<close>

fun digits_fixed :: "nat \<Rightarrow> int \<Rightarrow> string" where
  "digits_fixed 0 n = []"
| "digits_fixed (Suc k) n = digits_fixed k (n div 10) @ [digit_char (n mod 10)]"

fun digits_val :: "string \<Rightarrow> int" where
  "digits_val s = foldl (\<lambda>a c. 10 * a + digit_val c) 0 s"

text \<open>A decimal without trailing zeros after the point: the form a number prints in.\<close>

fun norm_dec :: "int \<Rightarrow> nat \<Rightarrow> int \<times> nat" where
  "norm_dec m 0 = (m, 0)"
| "norm_dec m (Suc s) = (if m mod 10 = 0 then norm_dec (m div 10) s else (m, Suc s))"

function strip_zeros :: "int \<Rightarrow> int" where
  "strip_zeros n = (if n \<le> 0 \<or> n mod 10 \<noteq> 0 then n else strip_zeros (n div 10))"
  by pat_completeness auto
termination
  by (relation "measure nat") auto

declare strip_zeros.simps [simp del]

text \<open>
  \<open>Number.prototype.toString\<close> of a positive decimal \<open>a / 10^s\<close> in normal form: plain
  notation from \<open>10^-6\<close> up to (not including) \<open>10^21\<close>, exponent notation outside.
\<close>

definition plain_notation :: "int \<Rightarrow> nat \<Rightarrow> string" where
  "plain_notation a s =
     show_nat (a div 10 ^ s) @ (if s = 0 then [] else CHR ''.'' # digits_fixed s (a mod 10 ^ s))"

definition exp_notation :: "int \<Rightarrow> nat \<Rightarrow> string" where
  "exp_notation a s =
     (let ds = show_nat (strip_zeros a);
          e = int (length (show_nat a)) - int s - 1
      in take 1 ds @ (if length ds = 1 then [] else CHR ''.'' # drop 1 ds)
         @ ''e'' @ (if 0 \<le> e then ''+'' else ''-'') @ show_nat \<bar>e\<bar>)"

fun num_to_string :: "jsnum \<Rightarrow> string" where
  "num_to_string NaN = ''NaN''"
| "num_to_string (Inf pos) = (if pos then ''Infinity'' else ''-Infinity'')"
| "num_to_string (Fin m s) =
     (case norm_dec m s of (m', s') \<Rightarrow>
        if m' = 0 then ''0''
        else (if m' < 0 then ''-'' else []) @
             (let a = \<bar>m'\<bar>
              in if a < 10 ^ (s' + 21) \<and> 10 ^ s' \<le> a * 10 ^ 6
                 then plain_notation a s' else exp_notation a s'))"

text \<open>Comparison of numbers; every comparison with \<open>NaN\<close> is false.\<close>

fun num_less :: "jsnum \<Rightarrow> jsnum \<Rightarrow> bool" where
  "num_less (Fin m s) (Fin n t) = (m * 10 ^ t < n * 10 ^ s)"
| "num_less (Fin m s) (Inf pos) = pos"
| "num_less (Inf pos) (Fin n t) = (\<not> pos)"
| "num_less (Inf p) (Inf q) = (\<not> p \<and> q)"
| "num_less NaN _ = False"
| "num_less _ NaN = False"

fun num_le :: "jsnum \<Rightarrow> jsnum \<Rightarrow> bool" where
  "num_le (Fin m s) (Fin n t) = (m * 10 ^ t \<le> n * 10 ^ s)"
| "num_le (Fin m s) (Inf pos) = pos"
| "num_le (Inf pos) (Fin n t) = (\<not> pos)"
| "num_le (Inf p) (Inf q) = (p \<longrightarrow> q)"
| "num_le NaN _ = False"
| "num_le _ NaN = False"

fun num_eq :: "jsnum \<Rightarrow> jsnum \<Rightarrow> bool" where
  "num_eq (Fin m s) (Fin n t) = (m * 10 ^ t = n * 10 ^ s)"
| "num_eq (Inf p) (Inf q) = (p = q)"
| "num_eq _ _ = False"

text \<open>
  The longest prefix of a string that is a decimal literal (sign, digits, fraction,
  exponent, or \<open>Infinity\<close>), with its value and the rest of the string.
\<close>

definition mk_fin :: "bool \<Rightarrow> int \<Rightarrow> nat \<Rightarrow> int \<Rightarrow> jsnum" where
  "mk_fin neg mant scale e =
     (let m = (if neg then - mant else mant)
      in if int scale \<le> e then Fin (m * 10 ^ nat (e - int scale)) 0
         else Fin m (nat (int scale - e)))"

definition parse_exponent :: "string \<Rightarrow> int \<times> string" where
  "parse_exponent r =
     (case r of
        c # t \<Rightarrow>
          if c = CHR ''e'' \<or> c = CHR ''E'' then
            (let (neg, u) = (case t of d # v \<Rightarrow> if d = CHR ''-'' then (True, v)
                                               else if d = CHR ''+'' then (False, v)
                                               else (False, t)
                             | [] \<Rightarrow> (False, t));
                 ds = takeWhile is_digit u
             in if ds = [] then (0, r)
                else ((if neg then - digits_val ds else digits_val ds),
                      dropWhile is_digit u))
          else (0, r)
      | [] \<Rightarrow> (0, r))"

definition parse_decimal :: "string \<Rightarrow> (jsnum \<times> string) option" where
  "parse_decimal s =
     (let (neg, r0) = (case s of c # t \<Rightarrow> if c = CHR ''-'' then (True, t)
                                         else if c = CHR ''+'' then (False, t)
                                         else (False, s)
                       | [] \<Rightarrow> (False, s))
      in if is_prefix ''Infinity'' r0 then Some (Inf (\<not> neg), drop 8 r0)
         else
           (let ip = takeWhile is_digit r0;
                r1 = dropWhile is_digit r0;
                (fp, r2) = (case r1 of c # t \<Rightarrow>
                              if c = CHR ''.'' then (takeWhile is_digit t, dropWhile is_digit t)
                              else ([], r1)
                            | [] \<Rightarrow> ([], r1))
            in if ip = [] \<and> fp = [] then None
               else (case parse_exponent r2 of (e, r3) \<Rightarrow>
                       Some (mk_fin neg (digits_val (ip @ fp)) (length fp) e, r3))))"

definition parseFloat_str :: "string \<Rightarrow> jsnum" where
  "parseFloat_str s =
     (case parse_decimal (dropWhile is_space s) of None \<Rightarrow> NaN | Some (n, _) \<Rightarrow> n)"

text \<open>
  The conversion of a string to a number (\<open>Number(s)\<close>): the whole trimmed string must be
  a decimal literal, and the empty string is zero. Hexadecimal, octal and binary literals
  are left out: they convert to \<open>NaN\<close> here.
\<close>

definition string_to_number :: "string \<Rightarrow> jsnum" where
  "string_to_number s =
     (let t = js_trim s
      in if t = [] then Fin 0 0
         else (case parse_decimal t of Some (n, []) \<Rightarrow> n | _ \<Rightarrow> NaN))"

subsection \<open>Conversions of values\<close>

text \<open>\<open>String(v)\<close>; inside an array \<open>null\<close> and \<open>undefined\<close> print as the empty string.\<close>

fun js_to_string :: "jsval \<Rightarrow> string" where
  "js_to_string JUndefined = ''undefined''"
| "js_to_string JNull = ''null''"
| "js_to_string (JBool b) = (if b then ''true'' else ''false'')"
| "js_to_string (JNum n) = num_to_string n"
| "js_to_string (JStr s) = s"
| "js_to_string (JArr xs) =
     join_with '','' (map (\<lambda>x. case x of JUndefined \<Rightarrow> [] | JNull \<Rightarrow> [] | _ \<Rightarrow> js_to_string x) xs)"

fun to_number :: "jsval \<Rightarrow> jsnum" where
  "to_number JUndefined = NaN"
| "to_number JNull = Fin 0 0"
| "to_number (JBool b) = (if b then Fin 1 0 else Fin 0 0)"
| "to_number (JNum n) = n"
| "to_number (JStr s) = string_to_number s"
| "to_number (JArr xs) = string_to_number (js_to_string (JArr xs))"

fun truthy :: "jsval \<Rightarrow> bool" where
  "truthy JUndefined = False"
| "truthy JNull = False"
| "truthy (JBool b) = b"
| "truthy (JNum NaN) = False"
| "truthy (JNum (Inf _)) = True"
| "truthy (JNum (Fin m s)) = (m \<noteq> 0)"
| "truthy (JStr s) = (s \<noteq> [])"
| "truthy (JArr xs) = True"

text \<open>\<open>parseFloat(v)\<close>: a number prints and parses back to itself.\<close>

fun js_parseFloat :: "jsval \<Rightarrow> jsnum" where
  "js_parseFloat (JNum n) = n"
| "js_parseFloat v = parseFloat_str (js_to_string v)"


subsection \<open>Objects\<close>

text \<open>
  A request body or query object is an association list of field names and values; an
  absent field reads as \<open>undefined\<close>.
\<close>

type_synonym obj = "(string \<times> jsval) list"

definition get_field :: "obj \<Rightarrow> string \<Rightarrow> jsval" where
  "get_field ob k = (case map_of ob k of None \<Rightarrow> JUndefined | Some v \<Rightarrow> v)"

fun set_field :: "obj \<Rightarrow> string \<Rightarrow> jsval \<Rightarrow> obj" where
  "set_field [] k v = [(k, v)]"
| "set_field ((k', v') # ob) k v =
     (if k' = k then (k, v) # ob else (k', v') # set_field ob k v)"

text \<open>
  A chain of express-validator writes a sanitized value back to the request unless it is
  the value already there; an absent field is not created for \<open>undefined\<close>.
\<close>

definition put_field :: "obj \<Rightarrow> string \<Rightarrow> jsval \<Rightarrow> obj" where
  "put_field ob k v = (if v = get_field ob k then ob else set_field ob k v)"

section \<open>Requests, responses and the store\<close>

text \<open>
  A validation error as express-validator records it: the field, the message and the
  rejected value (the location is always the body). A request carries what the middleware
  reads: the method, the path relative to the mount point of its router, the two headers
  the guards look at, the body and the query, the principal \<open>authenticateToken\<close> has
  attached, and the validation errors recorded so far.
\<close>

record verror =
  field :: string
  message :: string
  rejected :: jsval

record request =
  http_method :: string
  path :: string
  content_type :: "string option"
  content_length :: "string option"
  body :: obj
  query :: obj
  user_id :: nat
  verrors :: "verror list"

record response =
  status :: nat
  error_message :: string
  validationErrors :: "verror list"

text \<open>
  A middleware passes the request on (\<open>next()\<close>), answers, or throws. An answer has its
  status, the message of its error body (of the success body for 201) and the
  \<open>validationErrors\<close> of the body.
\<close>

datatype outcome = Next request | Respond response | Throw

definition reject :: "nat \<Rightarrow> string \<Rightarrow> outcome" where
  "reject st msg = Respond \<lparr>status = st, error_message = msg, validationErrors = []\<rparr>"

text \<open>
  The store at one instant: the clock, the users, the incomes and the expenses, each with
  the fields the business rules read.
\<close>

record user_rec =
  u_id :: nat
  u_isActive :: bool
  u_lastLogin :: "int option"

record txn =
  t_user :: nat
  t_amount :: jsnum
  t_date :: int
  t_category :: string
  t_isActive :: bool

record world =
  now :: int
  users :: "user_rec list"
  incomes :: "txn list"
  expenses :: "txn list"

text \<open>
  What the middleware takes from the platform and its libraries: the date arithmetic of
  \<open>Date\<close> (parsing, ISO printing, local midnight, the next calendar day, the same calendar
  day \<open>k\<close> years away) and the ISO 8601 test of validator.js.
\<close>

record jslib =
  date_parse :: "string \<Rightarrow> int option"
  to_iso :: "int \<Rightarrow> string"
  is_iso8601 :: "string \<Rightarrow> bool"
  start_of_day :: "int \<Rightarrow> int"
  next_day :: "int \<Rightarrow> int"
  years_from :: "int \<Rightarrow> int \<Rightarrow> int"

text \<open>\<open>new Date(v).getTime()\<close>, with \<open>None\<close> for an invalid date.\<close>

definition time_clip :: "int \<Rightarrow> int option" where
  "time_clip t = (if \<bar>t\<bar> \<le> 8640000000000000 then Some t else None)"

fun js_new_date :: "jslib \<Rightarrow> jsval \<Rightarrow> int option" where
  "js_new_date L JUndefined = None"
| "js_new_date L JNull = Some 0"
| "js_new_date L (JBool b) = Some (if b then 1 else 0)"
| "js_new_date L (JNum (Fin m s)) =
     time_clip (if 0 \<le> m then m div 10 ^ s else - ((- m) div 10 ^ s))"
| "js_new_date L (JNum _) = None"
| "js_new_date L (JStr s) = date_parse L s"
| "js_new_date L (JArr xs) = date_parse L (js_to_string (JArr xs))"


section \<open>express-validator\<close>

text \<open>
  The string a standard validator or sanitizer sees: empty for \<open>null\<close>, \<open>undefined\<close> and
  \<open>NaN\<close>, the printed form otherwise.
\<close>

fun ev_to_string :: "jsval \<Rightarrow> string" where
  "ev_to_string JUndefined = []"
| "ev_to_string JNull = []"
| "ev_to_string (JNum NaN) = []"
| "ev_to_string v = js_to_string v"

text \<open>
  A standard sanitizer replaces the value by the sanitized string; on an array it
  sanitizes every element.
\<close>

definition std_sanitize :: "(string \<Rightarrow> string) \<Rightarrow> jsval \<Rightarrow> jsval" where
  "std_sanitize f v =
     (case v of JArr xs \<Rightarrow> JArr (map (\<lambda>x. JStr (f (ev_to_string x))) xs)
      | _ \<Rightarrow> JStr (f (ev_to_string v)))"

text \<open>
  A standard validator records one error for every value that fails; on an array it tests
  every element.
\<close>

definition std_errors :: "(string \<Rightarrow> bool) \<Rightarrow> string \<Rightarrow> string \<Rightarrow> jsval \<Rightarrow> verror list" where
  "std_errors p fld msg v =
     map (\<lambda>x. \<lparr>field = fld, message = msg, rejected = x\<rparr>)
       (filter (\<lambda>x. \<not> p (ev_to_string x)) (case v of JArr xs \<Rightarrow> xs | _ \<Rightarrow> [v]))"

text \<open>A custom validator sees the value itself and fails by throwing or returning false.\<close>

definition custom_errors :: "string option \<Rightarrow> string \<Rightarrow> jsval \<Rightarrow> verror list" where
  "custom_errors failure fld v =
     (case failure of None \<Rightarrow> []
      | Some msg \<Rightarrow> [\<lparr>field = fld, message = msg, rejected = v\<rparr>])"

definition add_errors :: "request \<Rightarrow> verror list \<Rightarrow> request" where
  "add_errors r es = r\<lparr>verrors := verrors r @ es\<rparr>"

subsection \<open>validator.js\<close>

definition isLength :: "nat \<Rightarrow> nat \<Rightarrow> string \<Rightarrow> bool" where
  "isLength lo hi s = (lo \<le> length s \<and> length s \<le> hi)"

definition isIn :: "string list \<Rightarrow> string \<Rightarrow> bool" where
  "isIn allowed s = (s \<in> set allowed)"

definition isBoolean :: "string \<Rightarrow> bool" where
  "isBoolean s = (s \<in> set [''true'', ''false'', ''1'', ''0''])"

text \<open>
  The syntax \<open>isFloat\<close> accepts: sign, digits, a point with digits, an exponent, each of
  them optional.
\<close>

definition float_syntax :: "string \<Rightarrow> bool" where
  "float_syntax s =
     (let r0 = (case s of c # t \<Rightarrow> if c = CHR ''-'' \<or> c = CHR ''+'' then t else s | [] \<Rightarrow> s);
          r1 = dropWhile is_digit r0;
          r2 = (case r1 of c # t \<Rightarrow> if c = CHR ''.'' then dropWhile is_digit t else r1
                | [] \<Rightarrow> r1)
      in case r2 of [] \<Rightarrow> True
         | c # t \<Rightarrow>
             (c = CHR ''e'' \<or> c = CHR ''E'') \<and>
             (let u = (case t of d # v \<Rightarrow> if d = CHR ''-'' \<or> d = CHR ''+'' then v else t
                       | [] \<Rightarrow> t)
              in u \<noteq> [] \<and> list_all is_digit u))"

definition isFloat_str :: "jsnum \<Rightarrow> jsnum \<Rightarrow> string \<Rightarrow> bool" where
  "isFloat_str lo hi s =
     (s \<notin> set [[], ''.'', '','', ''-'', ''+''] \<and> float_syntax s \<and>
      num_le lo (parseFloat_str s) \<and> num_le (parseFloat_str s) hi)"

text \<open>
  \<open>isFloat\<close> on the string of a field value. A finite number prints in the float syntax
  and parses back to itself, so for a number the test is the range test on the number;
  \<open>NaN\<close> and the infinities do not print in that syntax.
\<close>

fun isFloat :: "jsnum \<Rightarrow> jsnum \<Rightarrow> jsval \<Rightarrow> bool" where
  "isFloat lo hi (JNum (Fin m s)) = (num_le lo (Fin m s) \<and> num_le (Fin m s) hi)"
| "isFloat lo hi (JNum _) = False"
| "isFloat lo hi v = isFloat_str lo hi (ev_to_string v)"

definition float_errors :: "jsnum \<Rightarrow> jsnum \<Rightarrow> string \<Rightarrow> string \<Rightarrow> jsval \<Rightarrow> verror list" where
  "float_errors lo hi fld msg v =
     map (\<lambda>x. \<lparr>field = fld, message = msg, rejected = x\<rparr>)
       (filter (\<lambda>x. \<not> isFloat lo hi x) (case v of JArr xs \<Rightarrow> xs | _ \<Rightarrow> [v]))"

definition escape_char :: "char \<Rightarrow> string" where
  "escape_char c =
     (if c = CHR ''&'' then ''&amp;''
      else if c = CHR 0x22 then ''&quot;''
      else if c = CHR 0x27 then ''&#x27;''
      else if c = CHR ''<'' then ''&lt;''
      else if c = CHR ''>'' then ''&gt;''
      else if c = CHR ''/'' then ''&#x2F;''
      else if c = CHR 0x5C then ''&#x5C;''
      else if c = CHR 0x60 then ''&#96;''
      else [c])"

definition escape :: "string \<Rightarrow> string" where
  "escape s = concat (map escape_char s)"

definition is_low :: "bool \<Rightarrow> char \<Rightarrow> bool" where
  "is_low keep_new_lines c =
     (let n = (of_char c :: nat)
      in (n < 32 \<or> n = 127) \<and> \<not> (keep_new_lines \<and> (n = 10 \<or> n = 13)))"

definition stripLow :: "bool \<Rightarrow> string \<Rightarrow> string" where
  "stripLow keep_new_lines s = filter (\<lambda>c. \<not> is_low keep_new_lines c) s"

text \<open>
  The characters \<open>escape\<close> replaces, and the values that hold only strings which neither
  \<open>escape\<close> nor \<open>stripLow\<close> changes.
\<close>

definition escapable :: "char \<Rightarrow> bool" where
  "escapable c =
     (c \<in> set [CHR ''&'', CHR 0x22, CHR 0x27, CHR ''<'', CHR ''>'', CHR ''/'', CHR 0x5C, CHR 0x60])"

definition plain_text :: "string \<Rightarrow> bool" where
  "plain_text s = list_all (\<lambda>c. \<not> escapable c \<and> \<not> is_low True c) s"

definition plain_value :: "jsval \<Rightarrow> bool" where
  "plain_value v =
     (case v of JArr xs \<Rightarrow> list_all (\<lambda>x. plain_text (ev_to_string x)) xs
      | _ \<Rightarrow> plain_text (ev_to_string v))"

text \<open>The letters, digits and accented letters the patterns of the middleware name.\<close>

definition is_alnum :: "char \<Rightarrow> bool" where
  "is_alnum c =
     (let n = (of_char c :: nat)
      in (97 \<le> n \<and> n \<le> 122) \<or> (65 \<le> n \<and> n \<le> 90) \<or> (48 \<le> n \<and> n \<le> 57))"

definition is_accented :: "char \<Rightarrow> bool" where
  "is_accented c =
     (c \<in> set [CHR 0xE1, CHR 0xE9, CHR 0xED, CHR 0xF3, CHR 0xFA,
                CHR 0xC1, CHR 0xC9, CHR 0xCD, CHR 0xD3, CHR 0xDA, CHR 0xF1, CHR 0xD1])"

section \<open>sanitization.mjs\<close>

text \<open>
  \<open>sanitizeInput\<close> trims every string of the body. For every string of the query it
  assigns \<open>req.body[key].trim()\<close>, which throws a TypeError unless the body holds a string
  under the same key.
\<close>

definition trim_strings :: "obj \<Rightarrow> obj" where
  "trim_strings ob = map (\<lambda>(k, v). (k, case v of JStr s \<Rightarrow> JStr (js_trim s) | _ \<Rightarrow> v)) ob"

fun sanitize_query :: "obj \<Rightarrow> obj \<Rightarrow> obj option" where
  "sanitize_query b [] = Some []"
| "sanitize_query b ((k, v) # q) =
     (case v of
        JStr _ \<Rightarrow>
          (case get_field b k of
             JStr s \<Rightarrow> map_option (\<lambda>q'. (k, JStr (js_trim s)) # q') (sanitize_query b q)
           | _ \<Rightarrow> None)
      | _ \<Rightarrow> map_option (\<lambda>q'. (k, v) # q') (sanitize_query b q))"

definition sanitizeInput :: "request \<Rightarrow> outcome" where
  "sanitizeInput r =
     (let b = trim_strings (body r)
      in case sanitize_query b (query r) of
           None \<Rightarrow> Throw
         | Some q \<Rightarrow> Next (r\<lparr>body := b, query := q\<rparr>))"

definition sanitize_text :: "jsval \<Rightarrow> jsval" where
  "sanitize_text v = std_sanitize (stripLow True) (std_sanitize escape (std_sanitize js_trim v))"

definition sanitizeDescription :: "request \<Rightarrow> outcome" where
  "sanitizeDescription r =
     Next (r\<lparr>body := put_field (body r) ''description''
                        (sanitize_text (get_field (body r) ''description''))\<rparr>)"

definition sanitizeNotes :: "request \<Rightarrow> outcome" where
  "sanitizeNotes r =
     (if get_field (body r) ''notes'' = JUndefined then Next r
      else Next (r\<lparr>body := put_field (body r) ''notes''
                              (sanitize_text (get_field (body r) ''notes''))\<rparr>))"

text \<open>
  The tag sanitizer trims and lower-cases the strings of an array and keeps the elements
  whose \<open>length\<close> is positive; reading \<open>length\<close> of \<open>null\<close> or \<open>undefined\<close> throws.
\<close>

definition clean_tag :: "jsval \<Rightarrow> jsval" where
  "clean_tag tag = (case tag of JStr s \<Rightarrow> JStr (toLowerCase (js_trim s)) | _ \<Rightarrow> tag)"

fun has_length :: "jsval \<Rightarrow> bool" where
  "has_length (JStr s) = (s \<noteq> [])"
| "has_length (JArr xs) = (xs \<noteq> [])"
| "has_length _ = False"

definition no_length :: "jsval \<Rightarrow> bool" where
  "no_length tag = (tag = JNull \<or> tag = JUndefined)"

definition clean_tags :: "jsval \<Rightarrow> jsval option" where
  "clean_tags v =
     (case v of
        JArr xs \<Rightarrow>
          if list_ex no_length xs then None
          else Some (JArr (filter has_length (map clean_tag xs)))
      | _ \<Rightarrow> Some v)"

definition sanitizeTags :: "request \<Rightarrow> outcome" where
  "sanitizeTags r =
     (if get_field (body r) ''tags'' = JUndefined then Next r
      else (case clean_tags (get_field (body r) ''tags'') of
              None \<Rightarrow> Throw
            | Some v \<Rightarrow> Next (r\<lparr>body := put_field (body r) ''tags'' v\<rparr>)))"

definition clean_date :: "jslib \<Rightarrow> jsval \<Rightarrow> jsval" where
  "clean_date L v =
     (if truthy v then (case js_new_date L v of None \<Rightarrow> v | Some t \<Rightarrow> JStr (to_iso L t))
      else v)"

definition sanitizeDate :: "jslib \<Rightarrow> request \<Rightarrow> outcome" where
  "sanitizeDate L r =
     Next (r\<lparr>body := put_field (body r) ''date'' (clean_date L (get_field (body r) ''date''))\<rparr>)"

definition clean_number :: "jsval \<Rightarrow> jsval" where
  "clean_number v = (case v of JStr s \<Rightarrow> JNum (parseFloat_str s) | _ \<Rightarrow> v)"

definition sanitizeNumericField :: "string \<Rightarrow> request \<Rightarrow> outcome" where
  "sanitizeNumericField fld r =
     Next (r\<lparr>body := put_field (body r) fld (clean_number (get_field (body r) fld))\<rparr>)"

definition clean_boolean :: "jsval \<Rightarrow> jsval" where
  "clean_boolean v =
     (case v of JStr s \<Rightarrow> JBool (toLowerCase s = ''true'') | _ \<Rightarrow> JBool (truthy v))"

definition sanitizeBooleanField :: "string \<Rightarrow> request \<Rightarrow> outcome" where
  "sanitizeBooleanField fld r =
     Next (r\<lparr>body := put_field (body r) fld (clean_boolean (get_field (body r) fld))\<rparr>)"

text \<open>
  The six \<open>dangerousPatterns\<close>, all of them case-insensitive: a complete \<open>script\<close>,
  \<open>iframe\<close>, \<open>object\<close> or \<open>embed\<close> element (the opening tag name ends at a word boundary
  and the closing tag follows somewhere), the text \<open>javascript:\<close>, and an event-handler
  attribute: \<open>on\<close>, word characters, optional white space and an equals sign.
\<close>

definition is_word :: "char \<Rightarrow> bool" where
  "is_word c = (is_alnum c \<or> c = CHR ''_'')"

fun suffixes_of :: "string \<Rightarrow> string list" where
  "suffixes_of [] = [[]]"
| "suffixes_of (c # cs) = (c # cs) # suffixes_of cs"

definition element_pattern :: "string \<Rightarrow> string \<Rightarrow> bool" where
  "element_pattern tag s =
     list_ex (\<lambda>u. is_prefix (''<'' @ tag) u \<and>
                   (case drop (Suc (length tag)) u of
                      [] \<Rightarrow> False
                    | c # cs \<Rightarrow> \<not> is_word c \<and> str_includes (c # cs) (''</'' @ tag @ ''>'')))
       (suffixes_of (toLowerCase s))"

definition handler_pattern :: "string \<Rightarrow> bool" where
  "handler_pattern s =
     list_ex (\<lambda>u. is_prefix ''on'' u \<and>
                   takeWhile is_word (drop 2 u) \<noteq> [] \<and>
                   is_prefix ''='' (dropWhile is_space (dropWhile is_word (drop 2 u))))
       (suffixes_of (toLowerCase s))"

definition dangerousPatterns :: "(string \<Rightarrow> bool) list" where
  "dangerousPatterns =
     [element_pattern ''script'',
      (\<lambda>s. str_includes (toLowerCase s) ''javascript:''),
      handler_pattern,
      element_pattern ''iframe'',
      element_pattern ''object'',
      element_pattern ''embed'']"

text \<open>
  \<open>preventInjection\<close> walks every string of the body and of the query, through nested
  arrays, and answers 400 at the first string one of the patterns matches.
\<close>

fun checkForInjection :: "jsval \<Rightarrow> bool" where
  "checkForInjection (JStr s) = list_ex (\<lambda>pattern. pattern s) dangerousPatterns"
| "checkForInjection (JArr xs) = list_ex checkForInjection xs"
| "checkForInjection _ = False"

definition preventInjection :: "request \<Rightarrow> outcome" where
  "preventInjection r =
     (if list_ex (\<lambda>(k, v). checkForInjection v) (body r)
         \<or> list_ex (\<lambda>(k, v). checkForInjection v) (query r)
      then reject 400 ''Contenido potencialmente peligroso detectado''
      else Next r)"

text \<open>\<open>parseInt\<close> of a header text: sign and leading digits, \<open>None\<close> for \<open>NaN\<close>.\<close>

definition js_parseInt :: "string \<Rightarrow> int option" where
  "js_parseInt s =
     (let t = dropWhile is_space s;
          (neg, u) = (case t of c # v \<Rightarrow> if c = CHR ''-'' then (True, v)
                                          else if c = CHR ''+'' then (False, v)
                                          else (False, t)
                      | [] \<Rightarrow> (False, t));
          ds = takeWhile is_digit u
      in if ds = [] then None
         else Some (if neg then - digits_val ds else digits_val ds))"

definition limitDataSize :: "int \<Rightarrow> request \<Rightarrow> outcome" where
  "limitDataSize maxSize r =
     (let header = (case content_length r of None \<Rightarrow> ''0''
                    | Some h \<Rightarrow> if h = [] then ''0'' else h)
      in case js_parseInt header of
           None \<Rightarrow> Next r
         | Some contentLength \<Rightarrow>
             if contentLength > maxSize then reject 413 ''Datos demasiado grandes'' else Next r)"

definition validateContentType :: "string list \<Rightarrow> request \<Rightarrow> outcome" where
  "validateContentType allowedTypes r =
     (if http_method r = ''POST'' \<or> http_method r = ''PUT'' \<or> http_method r = ''PATCH'' then
        (case content_type r of
           None \<Rightarrow> reject 415 ''Tipo de contenido no soportado''
         | Some ct \<Rightarrow>
             if ct = [] \<or> \<not> list_ex (\<lambda>ty. str_includes ct ty) allowedTypes
             then reject 415 ''Tipo de contenido no soportado''
             else Next r)
      else Next r)"


text \<open>Running a sanitizer again on the request it has sanitized.\<close>

definition twice :: "(request \<Rightarrow> outcome) \<Rightarrow> request \<Rightarrow> outcome" where
  "twice f r = (case f r of Next r' \<Rightarrow> f r' | out \<Rightarrow> out)"

section \<open>validation.js\<close>

text \<open>
  Every chain runs all of its validators on the field and appends the failures to the
  errors of the request; it never answers. A chain marked \<open>optional\<close> is skipped as a
  whole while the field is \<open>undefined\<close>. Messages are written without their accents.
\<close>

definition description_pattern :: "string \<Rightarrow> bool" where
  "description_pattern s =
     (s \<noteq> [] \<and> list_all (\<lambda>c. is_alnum c \<or> is_accented c \<or> is_space c \<or> c \<in> set ''-.,()'') s)"

definition tag_pattern :: "string \<Rightarrow> bool" where
  "tag_pattern s =
     (s \<noteq> [] \<and> list_all (\<lambda>c. is_alnum c \<or> is_accented c \<or> is_space c \<or> c \<in> set ''-_'') s)"

definition description_chain :: "request \<Rightarrow> request" where
  "description_chain r =
     (let v = std_sanitize js_trim (get_field (body r) ''description'')
      in add_errors (r\<lparr>body := put_field (body r) ''description'' v\<rparr>)
           (std_errors (isLength 1 200) ''description''
              ''La descripcion debe tener entre 1 y 200 caracteres'' v @
            std_errors description_pattern ''description''
              ''La descripcion contiene caracteres no validos'' v))"

text \<open>
  The custom validator of the amount splits \<open>value.toString()\<close> at the point and fails
  when the second piece has more than two characters; \<open>toString\<close> of \<open>null\<close> or
  \<open>undefined\<close> throws, which fails the validator as well.
\<close>

definition amount_decimals :: "jsval \<Rightarrow> string option" where
  "amount_decimals v =
     (if v = JUndefined \<or> v = JNull then Some ''Cannot read properties''
      else (case split_at CHR ''.'' (js_to_string v) of
              _ # frac # _ \<Rightarrow>
                if frac \<noteq> [] \<and> length frac > 2
                then Some ''El monto no puede tener mas de 2 decimales'' else None
            | _ \<Rightarrow> None))"

definition amount_chain :: "request \<Rightarrow> request" where
  "amount_chain r =
     (let v = get_field (body r) ''amount''
      in add_errors r
           (float_errors (Fin 1 2) (Fin 99999999999 2) ''amount''
              ''El monto debe ser un numero entre 0.01 y 999,999,999.99'' v @
            custom_errors (amount_decimals v) ''amount'' v))"

text \<open>
  An amount is accepted when the numeric sanitizer and the chain of the amount leave the
  request without a new validation error. The amounts that turn out to be accepted are the
  numbers of the range that print with at most two digits after the point.
\<close>

definition amount_accepted :: "request \<Rightarrow> bool" where
  "amount_accepted r =
     (case put_field (body r) ''amount'' (clean_number (get_field (body r) ''amount'')) of
        b \<Rightarrow> verrors (amount_chain (r\<lparr>body := b\<rparr>)) = verrors r)"

definition two_decimals :: "jsnum \<Rightarrow> bool" where
  "two_decimals n =
     (case n of
        Fin m s \<Rightarrow> num_le (Fin 1 2) (Fin m s) \<and> num_le (Fin m s) (Fin 99999999999 2) \<and>
                   snd (norm_dec m s) \<le> 2
      | _ \<Rightarrow> False)"

definition date_window :: "jslib \<Rightarrow> int \<Rightarrow> jsval \<Rightarrow> string option" where
  "date_window L now_ms v =
     (case js_new_date L v of
        None \<Rightarrow> None
      | Some d \<Rightarrow>
          if d < years_from L now_ms (- 1) then Some ''La fecha no puede ser anterior a un ano''
          else if d > years_from L now_ms 1 then Some ''La fecha no puede ser posterior a un ano''
          else None)"

definition date_chain :: "jslib \<Rightarrow> world \<Rightarrow> request \<Rightarrow> request" where
  "date_chain L W r =
     (let v = get_field (body r) ''date''
      in add_errors r
           (std_errors (is_iso8601 L) ''date'' ''La fecha debe ser valida (formato ISO 8601)'' v @
            custom_errors (date_window L (now W) v) ''date'' v))"

definition paymentMethods :: "string list" where
  "paymentMethods = [''efectivo'', ''tarjeta_debito'', ''tarjeta_credito'', ''transferencia'',
                     ''cheque'', ''crypto'', ''otros'']"

definition paymentMethod_chain :: "request \<Rightarrow> request" where
  "paymentMethod_chain r =
     add_errors r (std_errors (isIn paymentMethods) ''paymentMethod''
                     ''Metodo de pago no valido'' (get_field (body r) ''paymentMethod''))"

definition notes_chain :: "request \<Rightarrow> request" where
  "notes_chain r =
     (if get_field (body r) ''notes'' = JUndefined then r
      else (let v = std_sanitize js_trim (get_field (body r) ''notes'')
            in add_errors (r\<lparr>body := put_field (body r) ''notes'' v\<rparr>)
                 (std_errors (isLength 0 500) ''notes''
                    ''Las notas no pueden exceder 500 caracteres'' v)))"

definition isArray_max :: "nat \<Rightarrow> jsval \<Rightarrow> bool" where
  "isArray_max n v = (case v of JArr xs \<Rightarrow> length xs \<le> n | _ \<Rightarrow> False)"

definition tags_chain :: "request \<Rightarrow> request" where
  "tags_chain r =
     (let v = get_field (body r) ''tags''
      in if v = JUndefined then r
         else add_errors r
                (custom_errors (if isArray_max 10 v then None
                                else Some ''No se pueden agregar mas de 10 etiquetas'')
                   ''tags'' v))"

text \<open>The wildcard chain \<open>tags.*\<close> runs on every element of an array of tags.\<close>

definition tag_field :: "nat \<Rightarrow> string" where
  "tag_field i = ''tags['' @ show_nat (int i) @ '']''"

definition tagItem_chain :: "request \<Rightarrow> request" where
  "tagItem_chain r =
     (case get_field (body r) ''tags'' of
        JArr xs \<Rightarrow>
          (let ys = map (\<lambda>x. if x = JUndefined then x else std_sanitize js_trim x) xs;
               items = filter (\<lambda>(i, y). y \<noteq> JUndefined) (enumerate 0 ys)
           in add_errors (r\<lparr>body := put_field (body r) ''tags'' (JArr ys)\<rparr>)
                (concat (map (\<lambda>(i, y). std_errors (isLength 1 20) (tag_field i)
                                ''Cada etiqueta debe tener entre 1 y 20 caracteres'' y) items) @
                 concat (map (\<lambda>(i, y). std_errors tag_pattern (tag_field i)
                                ''Las etiquetas solo pueden contener letras, numeros, espacios, guiones y guiones bajos'' y) items)))
      | _ \<Rightarrow> r)"

definition validIncomeCategories :: "string list" where
  "validIncomeCategories =
     [''salario'', ''ventas'', ''inversiones'', ''freelance'', ''bonos'', ''comisiones'',
      ''alquiler'', ''intereses'', ''dividendos'', ''reembolsos'', ''regalos'', ''otros'']"

definition validExpenseCategories :: "string list" where
  "validExpenseCategories =
     [''alimentacion'', ''transporte'', ''vivienda'', ''servicios'', ''salud'', ''educacion'',
      ''entretenimiento'', ''ropa'', ''tecnologia'', ''deudas'', ''ahorro'', ''inversion'',
      ''impuestos'', ''seguros'', ''mantenimiento'', ''otros'']"

definition income_category_chain :: "request \<Rightarrow> request" where
  "income_category_chain r =
     add_errors r (std_errors (isIn validIncomeCategories) ''category''
                     ''Categoria de ingreso no valida'' (get_field (body r) ''category''))"

definition expense_category_chain :: "request \<Rightarrow> request" where
  "expense_category_chain r =
     add_errors r (std_errors (isIn validExpenseCategories) ''category''
                     ''Categoria de gasto no valida'' (get_field (body r) ''category''))"

definition isRecurring_chain :: "request \<Rightarrow> request" where
  "isRecurring_chain r =
     (let v = get_field (body r) ''isRecurring''
      in if v = JUndefined then r
         else add_errors r (std_errors isBoolean ''isRecurring''
                              ''isRecurring debe ser un valor booleano'' v))"

definition frequencies :: "string list" where
  "frequencies = [''diario'', ''semanal'', ''mensual'', ''trimestral'', ''anual'']"

text \<open>
  The chain of \<open>recurringFrequency\<close> is the same for incomes and expenses: optional, then
  membership, then the custom validator that asks for a frequency when \<open>isRecurring\<close> holds.
\<close>

definition frequency_required :: "obj \<Rightarrow> jsval \<Rightarrow> string option" where
  "frequency_required b v =
     (if truthy (get_field b ''isRecurring'') \<and> \<not> truthy v
      then Some ''La frecuencia de recurrencia es requerida cuando isRecurring es true''
      else None)"

definition recurringFrequency_chain :: "request \<Rightarrow> request" where
  "recurringFrequency_chain r =
     (let v = get_field (body r) ''recurringFrequency''
      in if v = JUndefined then r
         else add_errors r
                (std_errors (isIn frequencies) ''recurringFrequency''
                   ''Frecuencia de recurrencia no valida'' v @
                 custom_errors (frequency_required (body r) v) ''recurringFrequency'' v))"

definition handleValidationErrors :: "request \<Rightarrow> outcome" where
  "handleValidationErrors r =
     (if verrors r \<noteq> [] then
        Respond \<lparr>status = 400, error_message = ''Datos de entrada invalidos'',
                 validationErrors = verrors r\<rparr>
      else Next r)"


section \<open>businessValidation.js\<close>

text \<open>
  The store is read through Mongoose. A query whose date is invalid or whose amount is
  \<open>NaN\<close> fails in the cast of the query; the \<open>catch\<close> of the middleware turns that
  into the answer 500.
\<close>

definition server_error :: outcome where
  "server_error = reject 500 ''Error interno del servidor''"

definition findById :: "world \<Rightarrow> nat \<Rightarrow> user_rec option" where
  "findById W uid = find (\<lambda>u. u_id u = uid) (users W)"

definition validateActiveUser :: "world \<Rightarrow> request \<Rightarrow> outcome" where
  "validateActiveUser W r =
     (case findById W (user_id r) of
        None \<Rightarrow> reject 404 ''Usuario no encontrado''
      | Some user \<Rightarrow>
          if \<not> u_isActive user then reject 403 ''Cuenta desactivada''
          else (let maxInactiveDays = 90;
                    lastLogin = (case u_lastLogin user of None \<Rightarrow> 0 | Some t \<Rightarrow> t)
                in if now W - lastLogin > maxInactiveDays * (1000 * 60 * 60 * 24)
                   then reject 401 ''Sesion expirada por inactividad''
                   else Next r))"

definition countDaily :: "world \<Rightarrow> nat \<Rightarrow> int \<Rightarrow> int \<Rightarrow> nat" where
  "countDaily W uid today tomorrow =
     length (filter (\<lambda>t. t_user t = uid \<and> today \<le> t_date t \<and> t_date t < tomorrow \<and> t_isActive t)
               (incomes W))"

definition validateTransactionLimits :: "jslib \<Rightarrow> world \<Rightarrow> request \<Rightarrow> outcome" where
  "validateTransactionLimits L W r =
     (let amount = get_field (body r) ''amount'';
          date = get_field (body r) ''date''
      in case js_new_date L date of
           None \<Rightarrow> server_error
         | Some d \<Rightarrow>
             (let today = start_of_day L d;
                  tomorrow = next_day L today;
                  todayTransactions = countDaily W (user_id r) today tomorrow;
                  maxDailyTransactions = 50
              in if todayTransactions \<ge> maxDailyTransactions
                 then reject 429 ''Limite diario de transacciones excedido''
                 else if num_less (Fin 1000000 0) (to_number amount)
                 then reject 400 ''Monto excesivo''
                 else Next r))"

definition includes_category :: "string list \<Rightarrow> jsval \<Rightarrow> bool" where
  "includes_category cats v = (case v of JStr c \<Rightarrow> c \<in> set cats | _ \<Rightarrow> False)"

definition validateFinancialConsistency :: "jslib \<Rightarrow> world \<Rightarrow> request \<Rightarrow> outcome" where
  "validateFinancialConsistency L W r =
     (let amount = get_field (body r) ''amount'';
          date = get_field (body r) ''date'';
          category = get_field (body r) ''category'';
          isIncome = str_includes (path r) ''/incomes'';
          isExpense = str_includes (path r) ''/expenses'';
          maxFutureDays = 30;
          futureLimit = now W + maxFutureDays * 24 * 60 * 60 * 1000
      in if num_le (to_number amount) (Fin 0 0) then reject 400 ''Monto invalido''
         else if (case js_new_date L date of None \<Rightarrow> False | Some d \<Rightarrow> d > futureLimit)
         then reject 400 ''Fecha invalida''
         else if isIncome \<and> \<not> includes_category validIncomeCategories category
         then reject 400 ''Categoria invalida''
         else if isExpense \<and> \<not> includes_category validExpenseCategories category
         then reject 400 ''Categoria invalida''
         else Next r)"

text \<open>
  \<open>planLimits\<close>: the ceilings on transactions, categories and tags of each plan, with
  \<open>-1\<close> for none. The user schema declares no field \<open>plan\<close>, so the document the model
  returns has none.
\<close>

definition planLimits :: "(string \<times> int \<times> int \<times> int) list" where
  "planLimits = [(''free'', 100, 10, 5), (''premium'', 1000, 50, 20), (''enterprise'', - 1, - 1, - 1)]"

definition plan_of :: "user_rec \<Rightarrow> jsval" where
  "plan_of user = JUndefined"

definition countActive :: "nat \<Rightarrow> txn list \<Rightarrow> nat" where
  "countActive uid ts = length (filter (\<lambda>t. t_user t = uid \<and> t_isActive t) ts)"

fun js_length :: "jsval \<Rightarrow> nat option" where
  "js_length (JStr s) = Some (length s)"
| "js_length (JArr xs) = Some (length xs)"
| "js_length _ = None"

definition validateUserPlanLimits :: "world \<Rightarrow> request \<Rightarrow> outcome" where
  "validateUserPlanLimits W r =
     (case findById W (user_id r) of
        None \<Rightarrow> reject 404 ''Usuario no encontrado''
      | Some user \<Rightarrow>
          (let userPlan = (if truthy (plan_of user) then js_to_string (plan_of user) else ''free'')
           in case map_of planLimits userPlan of
                None \<Rightarrow> server_error
              | Some (maxTransactions, maxCategories, maxTags) \<Rightarrow>
                  if maxTransactions > 0 \<and>
                     int (countActive (user_id r) (incomes W) + countActive (user_id r) (expenses W))
                       \<ge> maxTransactions
                  then reject 429 ''Limite de plan excedido''
                  else if maxTags > 0 \<and> truthy (get_field (body r) ''tags'') \<and>
                          (case js_length (get_field (body r) ''tags'') of
                             None \<Rightarrow> False | Some n \<Rightarrow> int n > maxTags)
                  then reject 400 ''Limite de etiquetas excedido''
                  else Next r))"

definition same_transaction :: "nat \<Rightarrow> jsnum \<Rightarrow> int \<Rightarrow> jsval \<Rightarrow> txn \<Rightarrow> bool" where
  "same_transaction uid a d category t =
     (t_user t = uid \<and> num_eq (t_amount t) a \<and> t_date t = d \<and>
      category = JStr (t_category t) \<and> t_isActive t)"

definition validateDataIntegrity :: "jslib \<Rightarrow> world \<Rightarrow> request \<Rightarrow> outcome" where
  "validateDataIntegrity L W r =
     (let amount = get_field (body r) ''amount'';
          date = get_field (body r) ''date'';
          category = get_field (body r) ''category''
      in if truthy amount \<and> truthy date \<and> truthy category then
           (case js_new_date L date of
              None \<Rightarrow> server_error
            | Some d \<Rightarrow>
                if js_parseFloat amount = NaN then server_error
                else if list_ex (same_transaction (user_id r) (js_parseFloat amount) d category)
                          (incomes W)
                        \<or> list_ex (same_transaction (user_id r) (js_parseFloat amount) d category)
                             (expenses W)
                then reject 409 ''Transaccion duplicada''
                else Next r)
         else Next r)"

text \<open>
  The transactions the duplicate check of a draft looks for, and the drafts that stay
  below the daily ceiling and the ceiling of the plan.
\<close>

definition duplicate_of :: "jslib \<Rightarrow> request \<Rightarrow> txn \<Rightarrow> bool" where
  "duplicate_of L r t =
     (case js_new_date L (get_field (body r) ''date'') of
        None \<Rightarrow> False
      | Some d \<Rightarrow>
          same_transaction (user_id r) (js_parseFloat (get_field (body r) ''amount'')) d
            (get_field (body r) ''category'') t)"

definition below_limits :: "jslib \<Rightarrow> world \<Rightarrow> request \<Rightarrow> bool" where
  "below_limits L W r =
     (case js_new_date L (get_field (body r) ''date'') of
        None \<Rightarrow> False
      | Some d \<Rightarrow>
          countDaily W (user_id r) (start_of_day L d) (next_day L (start_of_day L d)) < 50 \<and>
          countActive (user_id r) (incomes W) + countActive (user_id r) (expenses W) < 100)"

section \<open>incomeController.js\<close>

text \<open>
  \<open>createIncome\<close> answers 400 when the request carries validation errors, saves the
  document and answers 201 otherwise; a document the income schema rejects makes
  \<open>save\<close> throw, which the handler answers with 500. Of the saved document the store
  keeps the fields the business rules read.
\<close>

definition schema_paymentMethods :: "string list" where
  "schema_paymentMethods = [''efectivo'', ''tarjeta'', ''transferencia'', ''cheque'', ''crypto'', ''otros'']"

definition schema_frequencies :: "string list" where
  "schema_frequencies = [''semanal'', ''quincenal'', ''mensual'', ''trimestral'', ''anual'']"

definition schema_text :: "nat \<Rightarrow> nat \<Rightarrow> jsval \<Rightarrow> bool" where
  "schema_text lo hi v = (case v of JStr s \<Rightarrow> isLength lo hi (js_trim s) | _ \<Rightarrow> False)"

definition schema_optional :: "(jsval \<Rightarrow> bool) \<Rightarrow> jsval \<Rightarrow> bool" where
  "schema_optional p v = (v = JUndefined \<or> p v)"

definition incomeSchema :: "jslib \<Rightarrow> world \<Rightarrow> nat \<Rightarrow> obj \<Rightarrow> txn option" where
  "incomeSchema L W uid b =
     (let date = (if get_field b ''date'' = JUndefined then Some (now W)
                  else js_new_date L (get_field b ''date''))
      in case (get_field b ''amount'', get_field b ''category'', date) of
           (JNum (Fin m s), JStr c, Some d) \<Rightarrow>
             if schema_text 3 200 (get_field b ''description'')
                \<and> num_le (Fin 1 2) (Fin m s) \<and> num_le (Fin m s) (Fin 99999999999 2)
                \<and> c \<in> set validIncomeCategories
                \<and> schema_optional (\<lambda>v. case v of JStr p \<Rightarrow> p \<in> set schema_paymentMethods | _ \<Rightarrow> False)
                     (get_field b ''paymentMethod'')
                \<and> schema_optional (schema_text 0 500) (get_field b ''notes'')
                \<and> schema_optional (\<lambda>v. case v of JBool _ \<Rightarrow> True | _ \<Rightarrow> False)
                     (get_field b ''isRecurring'')
                \<and> (if get_field b ''recurringFrequency'' = JUndefined
                    then get_field b ''isRecurring'' \<noteq> JBool True
                    else (case get_field b ''recurringFrequency'' of
                            JStr f \<Rightarrow> f \<in> set schema_frequencies | _ \<Rightarrow> False))
                \<and> schema_optional (\<lambda>v. case v of JArr xs \<Rightarrow> list_all (schema_text 0 20) xs | _ \<Rightarrow> False)
                     (get_field b ''tags'')
             then Some \<lparr>t_user = uid, t_amount = Fin m s, t_date = d, t_category = c,
                        t_isActive = True\<rparr>
             else None
         | _ \<Rightarrow> None)"

definition createIncome :: "jslib \<Rightarrow> world \<Rightarrow> request \<Rightarrow> response \<times> world" where
  "createIncome L W r =
     (if verrors r \<noteq> [] then
        (\<lparr>status = 400, error_message = ''Datos de entrada invalidos'',
          validationErrors = verrors r\<rparr>, W)
      else (case incomeSchema L W (user_id r) (body r) of
              None \<Rightarrow> (\<lparr>status = 500, error_message = ''Error interno del servidor'',
                         validationErrors = []\<rparr>, W)
            | Some income \<Rightarrow>
                (\<lparr>status = 201, error_message = ''Ingreso creado exitosamente'',
                  validationErrors = []\<rparr>,
                 W\<lparr>incomes := incomes W @ [income]\<rparr>)))"


section \<open>Routes\<close>

text \<open>
  The application mounts the income router at \<open>/api/incomes\<close> and the expense router at
  \<open>/api/expenses\<close>. Inside a mounted router Express strips the mount point from the
  request URL, so \<open>req.path\<close> is the rest of the URL, or \<open>/\<close> when nothing is left.
\<close>

definition mounted_path :: "string \<Rightarrow> string \<Rightarrow> string" where
  "mounted_path mount url = (let rest = drop (length mount) url in if rest = [] then ''/'' else rest)"

definition income_mount :: string where
  "income_mount = ''/api/incomes''"

text \<open>The middleware of \<open>router.post('/')\<close> in income.js, in the order of the array.\<close>

datatype mw =
    ValidateContentType | LimitDataSize | PreventInjection
  | SanitizeInput | SanitizeDescription | SanitizeNotes | SanitizeTags | SanitizeDate
  | SanitizeNumeric | SanitizeBoolean
  | DescriptionRule | AmountRule | DateRule | PaymentMethodRule | NotesRule | TagsRule
  | TagItemRule | CategoryRule | IsRecurringRule | RecurringFrequencyRule
  | ValidateActiveUser | ValidateTransactionLimits | ValidateFinancialConsistency
  | ValidateUserPlanLimits | ValidateDataIntegrity
  | HandleValidationErrors

definition income_post_chain :: "mw list" where
  "income_post_chain =
     [ValidateContentType, LimitDataSize, PreventInjection,
      SanitizeInput, SanitizeDescription, SanitizeNotes, SanitizeTags, SanitizeDate,
      SanitizeNumeric, SanitizeBoolean,
      DescriptionRule, AmountRule, DateRule, PaymentMethodRule, NotesRule, TagsRule,
      TagItemRule, CategoryRule, IsRecurringRule, RecurringFrequencyRule,
      ValidateActiveUser, ValidateTransactionLimits, ValidateFinancialConsistency,
      ValidateUserPlanLimits, ValidateDataIntegrity,
      HandleValidationErrors]"

fun run_mw :: "jslib \<Rightarrow> world \<Rightarrow> mw \<Rightarrow> request \<Rightarrow> outcome" where
  "run_mw L W ValidateContentType r = validateContentType [''application/json''] r"
| "run_mw L W LimitDataSize r = limitDataSize 2048 r"
| "run_mw L W PreventInjection r = preventInjection r"
| "run_mw L W SanitizeInput r = sanitizeInput r"
| "run_mw L W SanitizeDescription r = sanitizeDescription r"
| "run_mw L W SanitizeNotes r = sanitizeNotes r"
| "run_mw L W SanitizeTags r = sanitizeTags r"
| "run_mw L W SanitizeDate r = sanitizeDate L r"
| "run_mw L W SanitizeNumeric r = sanitizeNumericField ''amount'' r"
| "run_mw L W SanitizeBoolean r = sanitizeBooleanField ''isRecurring'' r"
| "run_mw L W DescriptionRule r = Next (description_chain r)"
| "run_mw L W AmountRule r = Next (amount_chain r)"
| "run_mw L W DateRule r = Next (date_chain L W r)"
| "run_mw L W PaymentMethodRule r = Next (paymentMethod_chain r)"
| "run_mw L W NotesRule r = Next (notes_chain r)"
| "run_mw L W TagsRule r = Next (tags_chain r)"
| "run_mw L W TagItemRule r = Next (tagItem_chain r)"
| "run_mw L W CategoryRule r = Next (income_category_chain r)"
| "run_mw L W IsRecurringRule r = Next (isRecurring_chain r)"
| "run_mw L W RecurringFrequencyRule r = Next (recurringFrequency_chain r)"
| "run_mw L W ValidateActiveUser r = validateActiveUser W r"
| "run_mw L W ValidateTransactionLimits r = validateTransactionLimits L W r"
| "run_mw L W ValidateFinancialConsistency r = validateFinancialConsistency L W r"
| "run_mw L W ValidateUserPlanLimits r = validateUserPlanLimits W r"
| "run_mw L W ValidateDataIntegrity r = validateDataIntegrity L W r"
| "run_mw L W HandleValidationErrors r = handleValidationErrors r"

text \<open>
  Express runs the middleware of a route one after the other; each either passes the
  request on, answers, or throws. The run returns the middleware that ran, in order, with
  the outcome of the last one.
\<close>

fun run_chain :: "jslib \<Rightarrow> world \<Rightarrow> mw list \<Rightarrow> request \<Rightarrow> mw list \<times> outcome" where
  "run_chain L W [] r = ([], Next r)"
| "run_chain L W (m # ms) r =
     (case run_mw L W m r of
        Next r' \<Rightarrow> (case run_chain L W ms r' of (seen, out) \<Rightarrow> (m # seen, out))
      | out \<Rightarrow> ([m], out))"

fun passed :: "outcome \<Rightarrow> bool" where
  "passed (Next r) = True"
| "passed _ = False"

text \<open>
  The array of the route in three parts: the guards, sanitizers and validation chains; the
  business rules, which read the store; the responder of the validation errors.
\<close>

definition before_business :: "mw list" where
  "before_business =
     [ValidateContentType, LimitDataSize, PreventInjection,
      SanitizeInput, SanitizeDescription, SanitizeNotes, SanitizeTags, SanitizeDate,
      SanitizeNumeric, SanitizeBoolean,
      DescriptionRule, AmountRule, DateRule, PaymentMethodRule, NotesRule, TagsRule,
      TagItemRule, CategoryRule, IsRecurringRule, RecurringFrequencyRule]"

definition business_rules :: "mw list" where
  "business_rules =
     [ValidateActiveUser, ValidateTransactionLimits, ValidateFinancialConsistency,
      ValidateUserPlanLimits, ValidateDataIntegrity]"

text \<open>
  Before the business rules a request keeps its principal, and the only answers are 400
  (injection), 413 and 415.
\<close>

definition early_outcome :: "request \<Rightarrow> outcome \<Rightarrow> bool" where
  "early_outcome r out =
     (case out of
        Next r' \<Rightarrow> user_id r' = user_id r
      | Respond res \<Rightarrow> status res \<in> {400, 413, 415} \<and> validationErrors res = []
      | Throw \<Rightarrow> True)"

text \<open>An error thrown by a middleware reaches \<open>errorHandler\<close>, which answers 500.\<close>

definition errorHandler :: response where
  "errorHandler = \<lparr>status = 500, error_message = ''Error interno del servidor'',
                    validationErrors = []\<rparr>"

definition post_income :: "jslib \<Rightarrow> world \<Rightarrow> request \<Rightarrow> response \<times> world" where
  "post_income L W r =
     (case snd (run_chain L W income_post_chain r) of
        Next r' \<Rightarrow> createIncome L W r'
      | Respond res \<Rightarrow> (res, W)
      | Throw \<Rightarrow> (errorHandler, W))"

text \<open>The part each middleware plays in the pipeline.\<close>

datatype stage =
  ContentSizeGuard | InjectionGuard | Sanitizer | SchemaRule | BusinessRule | ValidationResponder

fun stage_of :: "mw \<Rightarrow> stage" where
  "stage_of ValidateContentType = ContentSizeGuard"
| "stage_of LimitDataSize = ContentSizeGuard"
| "stage_of PreventInjection = InjectionGuard"
| "stage_of SanitizeInput = Sanitizer"
| "stage_of SanitizeDescription = Sanitizer"
| "stage_of SanitizeNotes = Sanitizer"
| "stage_of SanitizeTags = Sanitizer"
| "stage_of SanitizeDate = Sanitizer"
| "stage_of SanitizeNumeric = Sanitizer"
| "stage_of SanitizeBoolean = Sanitizer"
| "stage_of ValidateActiveUser = BusinessRule"
| "stage_of ValidateTransactionLimits = BusinessRule"
| "stage_of ValidateFinancialConsistency = BusinessRule"
| "stage_of ValidateUserPlanLimits = BusinessRule"
| "stage_of ValidateDataIntegrity = BusinessRule"
| "stage_of HandleValidationErrors = ValidationResponder"
| "stage_of _ = SchemaRule"

text \<open>
  The four routes that create or update a transaction. Apart from the creation of an
  income, their arrays hold only validation chains written in place, one for each of the
  fields listed, and the handler follows.
\<close>

datatype route = IncomeCreate | IncomeUpdate | ExpenseCreate | ExpenseUpdate

definition income_put_fields :: "string list" where
  "income_put_fields =
     [''description'', ''amount'', ''category'', ''date'', ''paymentMethod'', ''notes'',
      ''isRecurring'', ''recurringFrequency'', ''tags'', ''tags.*'']"

definition expense_fields :: "string list" where
  "expense_fields =
     [''description'', ''amount'', ''category'', ''date'', ''paymentMethod'', ''notes'',
      ''isRecurring'', ''recurringFrequency'', ''tags'', ''tags.*'', ''isEssential'']"

fun route_stages :: "route \<Rightarrow> stage list" where
  "route_stages IncomeCreate = map stage_of income_post_chain"
| "route_stages IncomeUpdate = map (\<lambda>f. SchemaRule) income_put_fields"
| "route_stages ExpenseCreate = map (\<lambda>f. SchemaRule) expense_fields"
| "route_stages ExpenseUpdate = map (\<lambda>f. SchemaRule) expense_fields"

fun is_subseq :: "'a list \<Rightarrow> 'a list \<Rightarrow> bool" where
  "is_subseq [] ys = True"
| "is_subseq (x # xs) [] = False"
| "is_subseq (x # xs) (y # ys) = (if x = y then is_subseq xs ys else is_subseq (x # xs) ys)"

definition pipeline_order :: "stage list" where
  "pipeline_order = [ContentSizeGuard, InjectionGuard, Sanitizer, SchemaRule, BusinessRule]"

section \<open>A library instance\<close>

text \<open>
  An instance of the library interface for a server whose time zone is UTC. It reads the
  two ISO 8601 forms \<open>YYYY-MM-DD\<close> and \<open>YYYY-MM-DDTHH:MM:SS.sssZ\<close> (the form
  \<open>toISOString\<close> prints) and takes every other string as no date; days are counted in the
  proleptic Gregorian calendar from 1970-01-01.
\<close>

definition days_from_civil :: "int \<Rightarrow> int \<Rightarrow> int \<Rightarrow> int" where
  "days_from_civil y m d =
     (let y' = (if m \<le> 2 then y - 1 else y);
          era = y' div 400;
          yoe = y' - era * 400;
          mp = (m + 9) mod 12;
          doy = (153 * mp + 2) div 5 + d - 1;
          doe = yoe * 365 + yoe div 4 - yoe div 100 + doy
      in era * 146097 + doe - 719468)"

definition civil_from_days :: "int \<Rightarrow> int \<times> int \<times> int" where
  "civil_from_days z =
     (let z' = z + 719468;
          era = z' div 146097;
          doe = z' - era * 146097;
          yoe = (doe - doe div 1460 + doe div 36524 - doe div 146096) div 365;
          doy = doe - (365 * yoe + yoe div 4 - yoe div 100);
          mp = (5 * doy + 2) div 153;
          d = doy - (153 * mp + 2) div 5 + 1;
          m = (if mp < 10 then mp + 3 else mp - 9)
      in ((if m \<le> 2 then yoe + era * 400 + 1 else yoe + era * 400), m, d))"

definition days_in_month :: "int \<Rightarrow> int \<Rightarrow> int" where
  "days_in_month y m =
     (if m = 2 then (if y mod 4 = 0 \<and> (y mod 100 \<noteq> 0 \<or> y mod 400 = 0) then 29 else 28)
      else if m = 4 \<or> m = 6 \<or> m = 9 \<or> m = 11 then 30 else 31)"

definition digits_at :: "nat \<Rightarrow> nat \<Rightarrow> string \<Rightarrow> int option" where
  "digits_at i n s =
     (let ds = take n (drop i s)
      in if length ds = n \<and> list_all is_digit ds then Some (digits_val ds) else None)"

definition iso_fields :: "string \<Rightarrow> (int \<times> int \<times> int \<times> int \<times> int \<times> int \<times> int) option" where
  "iso_fields s =
     (case (digits_at 0 4 s, digits_at 5 2 s, digits_at 8 2 s) of
        (Some y, Some mo, Some d) \<Rightarrow>
          if take 1 (drop 4 s) = ''-'' \<and> take 1 (drop 7 s) = ''-'' then
            (if length s = 10 then Some (y, mo, d, 0, 0, 0, 0)
             else (case (digits_at 11 2 s, digits_at 14 2 s, digits_at 17 2 s, digits_at 20 3 s) of
                     (Some h, Some mi, Some sec, Some ms) \<Rightarrow>
                       if length s = 24 \<and> take 1 (drop 10 s) = ''T'' \<and> take 1 (drop 13 s) = '':''
                          \<and> take 1 (drop 16 s) = '':'' \<and> take 1 (drop 19 s) = ''.''
                          \<and> drop 23 s = ''Z''
                       then Some (y, mo, d, h, mi, sec, ms) else None
                   | _ \<Rightarrow> None))
          else None
      | _ \<Rightarrow> None)"

definition iso_parse :: "string \<Rightarrow> int option" where
  "iso_parse s =
     (case iso_fields s of
        None \<Rightarrow> None
      | Some (y, mo, d, h, mi, sec, ms) \<Rightarrow>
          if 1 \<le> mo \<and> mo \<le> 12 \<and> 1 \<le> d \<and> d \<le> days_in_month y mo \<and>
             h \<le> 23 \<and> mi \<le> 59 \<and> sec \<le> 59
          then Some (days_from_civil y mo d * 86400000 + h * 3600000 + mi * 60000 + sec * 1000 + ms)
          else None)"

definition iso_shape :: "string \<Rightarrow> bool" where
  "iso_shape s =
     (case iso_fields s of
        None \<Rightarrow> False
      | Some (y, mo, d, h, mi, sec, ms) \<Rightarrow>
          1 \<le> mo \<and> mo \<le> 12 \<and> 1 \<le> d \<and> d \<le> 31 \<and> h \<le> 23 \<and> mi \<le> 59 \<and> sec \<le> 59)"

definition iso_print :: "int \<Rightarrow> string" where
  "iso_print t =
     (let ms = t mod 86400000
      in case civil_from_days (t div 86400000) of
           (y, m, d) \<Rightarrow>
             digits_fixed 4 y @ ''-'' @ digits_fixed 2 m @ ''-'' @ digits_fixed 2 d @ ''T'' @
             digits_fixed 2 (ms div 3600000) @ '':'' @ digits_fixed 2 (ms div 60000 mod 60) @ '':'' @
             digits_fixed 2 (ms div 1000 mod 60) @ ''.'' @ digits_fixed 3 (ms mod 1000) @ ''Z'')"

definition utc_lib :: jslib where
  "utc_lib =
     \<lparr>date_parse = iso_parse,
      to_iso = iso_print,
      is_iso8601 = iso_shape,
      start_of_day = (\<lambda>t. t - t mod 86400000),
      next_day = (\<lambda>t. t + 86400000),
      years_from = (\<lambda>t k. case civil_from_days (t div 86400000) of
                              (y, m, d) \<Rightarrow> days_from_civil (y + k) m d * 86400000)\<rparr>"

section \<open>Sample requests\<close>

text \<open>
  A JSON request to \<open>POST /api/incomes\<close> by user 1, a store that holds this user and the
  given incomes at the instant 1700000000000 (2023-11-14 22:13:20 UTC), and a draft every
  rule accepts, dated at this instant.
\<close>

definition json_post :: "obj \<Rightarrow> obj \<Rightarrow> request" where
  "json_post b q =
     \<lparr>http_method = ''POST'', path = mounted_path income_mount ''/api/incomes'',
      content_type = Some ''application/json'', content_length = Some ''120'',
      body = b, query = q, user_id = 1, verrors = []\<rparr>"

definition sample_user :: "bool \<Rightarrow> user_rec" where
  "sample_user active = \<lparr>u_id = 1, u_isActive = active, u_lastLogin = Some 1699990000000\<rparr>"

definition sample_world :: "bool \<Rightarrow> txn list \<Rightarrow> world" where
  "sample_world active ts =
     \<lparr>now = 1700000000000, users = [sample_user active], incomes = ts, expenses = []\<rparr>"

definition sample_draft :: obj where
  "sample_draft =
     [(''description'', JStr ''Test''), (''amount'', JNum (Fin 100 0)),
      (''category'', JStr ''salario''), (''date'', JStr ''2023-11-14T22:13:20.000Z''),
      (''paymentMethod'', JStr ''efectivo'')]"


text \<open>
  Another income of user 1 on the day of the draft, and two drafts the schema rejects: one
  whose amount has three decimals, one that also has a description of 201 characters.
\<close>

definition other_income :: txn where
  "other_income =
     \<lparr>t_user = 1, t_amount = Fin 5 0, t_date = 1700000000000, t_category = ''ventas'',
      t_isActive = True\<rparr>"

definition three_decimals_draft :: obj where
  "three_decimals_draft = set_field sample_draft ''amount'' (JStr ''10.123'')"

definition two_errors_draft :: obj where
  "two_errors_draft =
     set_field three_decimals_draft ''description'' (JStr (replicate 201 CHR ''A''))"

text \<open>A draft whose amount is written with trailing zeros.\<close>

definition trailing_zeros_draft :: obj where
  "trailing_zeros_draft = set_field sample_draft ''amount'' (JStr ''10.100'')"

text \<open>A draft with an ampersand in its description, and one with spaces to trim.\<close>

definition ampersand_draft :: obj where
  "ampersand_draft = set_field sample_draft ''description'' (JStr ''Tom & Jerry'')"

definition untrimmed_draft :: obj where
  "untrimmed_draft =
     [(''description'', JStr ''  Test ''), (''notes'', JStr '' paid in cash ''),
      (''tags'', JArr [JStr '' Work '', JStr ''  '', JStr ''EXTRA''])]"

section \<open>Strings\<close>

lemma of_char_lower_char:
  "(of_char (lower_char c) :: nat) =
     (if (65 \<le> (of_char c :: nat) \<and> (of_char c :: nat) \<le> 90) \<or>
         (192 \<le> (of_char c :: nat) \<and> (of_char c :: nat) \<le> 222 \<and> (of_char c :: nat) \<noteq> 215)
      then of_char c + 32 else of_char c)"
  by (simp add: lower_char_def Let_def)

lemma lower_char_idem: "lower_char (lower_char c) = lower_char c"
proof -
  have "(of_char (lower_char (lower_char c)) :: nat) = of_char (lower_char c)"
    by (simp add: of_char_lower_char)
  then show ?thesis by (metis char_of_char)
qed

lemma is_space_lower_char: "is_space (lower_char c) = is_space c"
  by (auto simp: is_space_def of_char_lower_char)

lemma toLowerCase_idem: "toLowerCase (toLowerCase s) = toLowerCase s"
  by (simp add: toLowerCase_def lower_char_idem)

lemma dropWhile_space_lower:
  "dropWhile is_space (map lower_char s) = map lower_char (dropWhile is_space s)"
  by (induction s) (simp_all add: is_space_lower_char)

lemma js_trim_toLowerCase: "js_trim (toLowerCase s) = toLowerCase (js_trim s)"
  by (simp add: js_trim_def toLowerCase_def dropWhile_space_lower rev_map)

text \<open>A trimmed string neither starts nor ends with white space, so trimming it changes nothing.\<close>

lemma dropWhile_rev_dropWhile:
  "dropWhile P (rev (dropWhile P (rev (dropWhile P s)))) = rev (dropWhile P (rev (dropWhile P s)))"
proof -
  define t where "t = dropWhile P s"
  define u where "u = rev (dropWhile P (rev t))"
  have head: "t \<noteq> [] \<Longrightarrow> \<not> P (hd t)"
    unfolding t_def by (metis hd_dropWhile)
  have prefix: "u @ rev (takeWhile P (rev t)) = t"
    unfolding u_def by (metis rev_append rev_rev_ident takeWhile_dropWhile_id)
  have "dropWhile P u = u"
  proof (cases u)
    case Nil
    then show ?thesis by simp
  next
    case (Cons a as)
    with prefix have "t = a # (as @ rev (takeWhile P (rev t)))" by (metis append_Cons)
    then have "t \<noteq> []" and "hd t = a" by (metis list.distinct(1), metis list.sel(1))
    with head have "\<not> P a" by simp
    with Cons show ?thesis by simp
  qed
  then show ?thesis by (simp add: u_def t_def)
qed

lemma js_trim_idem: "js_trim (js_trim s) = js_trim s"
proof -
  have "dropWhile is_space (js_trim s) = js_trim s"
    unfolding js_trim_def by (rule dropWhile_rev_dropWhile)
  moreover have "dropWhile is_space (rev (js_trim s)) = rev (js_trim s)"
    by (simp add: js_trim_def dropWhile_idem)
  ultimately show ?thesis
    by (metis js_trim_def rev_rev_ident)
qed

lemma set_js_trim: "set (js_trim s) \<subseteq> set s"
  unfolding js_trim_def
  by (metis set_dropWhileD set_rev subsetI)

section \<open>Fields of an object\<close>

lemma get_field_set_field: "get_field (set_field ob k v) k = v"
  by (induction ob) (auto simp: get_field_def)

lemma get_field_put_field: "get_field (put_field ob k v) k = v"
  by (simp add: put_field_def get_field_set_field)

lemma put_field_same: "put_field ob k (get_field ob k) = ob"
  by (simp add: put_field_def)

lemma put_field_idem: "put_field (put_field ob k v) k v = put_field ob k v"
  by (metis get_field_put_field put_field_same)

section \<open>Idempotent parts of the sanitizer\<close>

lemma trim_strings_idem: "trim_strings (trim_strings ob) = trim_strings ob"
  by (induction ob) (auto simp: trim_strings_def js_trim_idem split: jsval.splits)

lemma sanitize_query_idem:
  "sanitize_query b q = Some q' \<Longrightarrow> sanitize_query b q' = Some q'"
proof (induction q arbitrary: q')
  case Nil
  then show ?case by simp
next
  case (Cons kv q)
  obtain k v where kv: "kv = (k, v)" by (cases kv)
  from Cons.prems obtain q1 where q1: "sanitize_query b q = Some q1"
    unfolding kv by (auto split: jsval.splits)
  then have again: "sanitize_query b q1 = Some q1" by (rule Cons.IH)
  show ?case
    using Cons.prems q1 again unfolding kv
    by (auto split: jsval.splits)
qed

lemma sanitizeInput_idem:
  "sanitizeInput r = Next r1 \<Longrightarrow> sanitizeInput r1 = Next r1"
  by (auto simp: sanitizeInput_def Let_def trim_strings_idem sanitize_query_idem
      split: option.splits)

lemma clean_tag_idem: "clean_tag (clean_tag x) = clean_tag x"
  by (cases x) (simp_all add: clean_tag_def js_trim_toLowerCase toLowerCase_idem js_trim_idem)

lemma clean_tags_idem:
  "clean_tags v = Some v' \<Longrightarrow> clean_tags v' = Some v'"
proof (cases v)
  case (JArr xs)
  assume "clean_tags v = Some v'"
  then have v': "v' = JArr (filter has_length (map clean_tag xs))"
    using JArr by (simp add: clean_tags_def split: if_splits)
  have keep: "filter has_length (map clean_tag ys) = ys"
    if "ys = filter has_length (map clean_tag xs)" for ys
    unfolding that
    by (induction xs) (simp_all add: clean_tag_idem)
  have none: "\<not> list_ex no_length (filter has_length (map clean_tag xs))"
    by (auto simp: list_ex_iff no_length_def)
  show ?thesis
    unfolding v' using keep none by (simp add: clean_tags_def)
qed (auto simp: clean_tags_def)

lemma sanitizeTags_idem:
  "sanitizeTags r = Next r2 \<Longrightarrow> sanitizeTags r2 = Next r2"
proof (cases "get_field (body r) ''tags'' = JUndefined")
  case True
  assume "sanitizeTags r = Next r2"
  with True show ?thesis by (simp add: sanitizeTags_def)
next
  case False
  assume run: "sanitizeTags r = Next r2"
  then obtain v' where v': "clean_tags (get_field (body r) ''tags'') = Some v'"
    and r2: "r2 = r\<lparr>body := put_field (body r) ''tags'' v'\<rparr>"
    using False by (auto simp: sanitizeTags_def split: option.splits)
  have "v' \<noteq> JUndefined"
    using v' False by (auto simp: clean_tags_def split: jsval.splits if_splits)
  moreover have "clean_tags v' = Some v'" using v' by (rule clean_tags_idem)
  ultimately show ?thesis
    by (simp add: r2 sanitizeTags_def get_field_put_field put_field_idem)
qed

text \<open>On plain text the sanitizer of descriptions and notes only trims.\<close>

lemma escape_plain: "list_all (\<lambda>c. \<not> escapable c) s \<Longrightarrow> escape s = s"
  by (induction s) (auto simp: escape_def escape_char_def escapable_def)

lemma plain_text_trim: "plain_text s \<Longrightarrow> plain_text (js_trim s)"
  using set_js_trim [of s] by (auto simp: plain_text_def list_all_iff)

lemma sanitize_plain_string:
  assumes "plain_text s"
  shows "stripLow True (escape (js_trim s)) = js_trim s"
proof -
  have p: "plain_text (js_trim s)" using assms by (rule plain_text_trim)
  then have "escape (js_trim s) = js_trim s"
    by (intro escape_plain) (simp add: plain_text_def list_all_iff)
  moreover have "stripLow True (js_trim s) = js_trim s"
    using p by (simp add: stripLow_def plain_text_def list_all_iff)
  ultimately show ?thesis by simp
qed

lemma sanitize_text_plain:
  "plain_value v \<Longrightarrow> sanitize_text v = std_sanitize js_trim v"
  by (cases v)
     (auto simp: sanitize_text_def std_sanitize_def plain_value_def sanitize_plain_string
        list_all_iff)

lemma plain_value_trimmed: "plain_value v \<Longrightarrow> plain_value (std_sanitize js_trim v)"
  by (cases v) (auto simp: std_sanitize_def plain_value_def plain_text_trim list_all_iff)

lemma std_sanitize_trim_idem:
  "std_sanitize js_trim (std_sanitize js_trim v) = std_sanitize js_trim v"
  by (cases v) (auto simp: std_sanitize_def js_trim_idem)

lemma sanitize_text_idem:
  "plain_value v \<Longrightarrow> sanitize_text (sanitize_text v) = sanitize_text v"
  by (simp add: sanitize_text_plain plain_value_trimmed std_sanitize_trim_idem)

lemma sanitizeDescription_idem:
  "plain_value (get_field (body r) ''description'') \<Longrightarrow>
   sanitizeDescription r = Next r3 \<Longrightarrow> sanitizeDescription r3 = Next r3"
  by (auto simp: sanitizeDescription_def get_field_put_field sanitize_text_idem put_field_idem)

lemma sanitizeNotes_idem:
  "plain_value (get_field (body r) ''notes'') \<Longrightarrow>
   sanitizeNotes r = Next r4 \<Longrightarrow> sanitizeNotes r4 = Next r4"
  by (auto simp: sanitizeNotes_def get_field_put_field sanitize_text_idem put_field_idem
      split: if_splits)

section \<open>Printed numbers\<close>

lemma norm_dec_value:
  "norm_dec m s = (m', s') \<Longrightarrow> s' \<le> s \<and> m = m' * 10 ^ (s - s')"
proof (induction m s rule: norm_dec.induct)
  case (1 m)
  then show ?case by simp
next
  case (2 m s)
  show ?case
  proof (cases "m mod 10 = 0")
    case True
    with 2 have ih: "s' \<le> s \<and> m div 10 = m' * 10 ^ (s - s')" by simp
    from True have "m = (m div 10) * 10" by presburger
    with ih have "m = m' * 10 ^ (s - s') * 10" by simp
    moreover from ih have "Suc s - s' = Suc (s - s')" by (auto simp: Suc_diff_le)
    ultimately show ?thesis using ih by simp
  next
    case False
    with 2 show ?thesis by simp
  qed
qed

lemma digit_char_not_point: "0 \<le> d \<Longrightarrow> d < 10 \<Longrightarrow> digit_char d \<noteq> CHR ''.''"
proof
  assume d: "0 \<le> d" "d < 10" and eq: "digit_char d = CHR ''.''"
  have "(of_char (digit_char d) :: int) = (48 + d) mod 256"
    by (simp add: digit_char_def)
  with d have "(of_char (digit_char d) :: int) = 48 + d" by simp
  with eq d show False by simp
qed

lemma point_not_in_show_nat: "0 \<le> n \<Longrightarrow> CHR ''.'' \<notin> set (show_nat n)"
proof (induction n rule: show_nat.induct)
  case (1 n)
  show ?case
  proof (cases "n < 10")
    case True
    with 1 show ?thesis
      using digit_char_not_point [of n] by (subst show_nat.simps) auto
  next
    case False
    with 1 have "CHR ''.'' \<notin> set (show_nat (n div 10))" by simp
    moreover have "digit_char (n mod 10) \<noteq> CHR ''.''" by (simp add: digit_char_not_point)
    ultimately show ?thesis using False by (subst show_nat.simps) auto
  qed
qed

lemma point_not_in_digits_fixed: "CHR ''.'' \<notin> set (digits_fixed k n)"
proof (induction k arbitrary: n)
  case 0
  show ?case by simp
next
  case (Suc k)
  have "digit_char (n mod 10) \<noteq> CHR ''.''" by (simp add: digit_char_not_point)
  with Suc show ?case by auto
qed

lemma length_digits_fixed: "length (digits_fixed k n) = k"
  by (induction k arbitrary: n) simp_all

lemma digits_fixed_Nil: "digits_fixed k n = [] \<longleftrightarrow> k = 0"
  by (metis length_digits_fixed length_0_conv)

lemma split_at_absent: "sep \<notin> set xs \<Longrightarrow> split_at sep xs = [xs]"
  by (induction xs) auto

lemma split_at_once:
  "sep \<notin> set xs \<Longrightarrow> sep \<notin> set ys \<Longrightarrow> split_at sep (xs @ sep # ys) = [xs, ys]"
  by (induction xs) (auto simp: split_at_absent)

text \<open>Within the range of amounts a number prints in plain notation.\<close>

lemma amount_prints_plain:
  assumes lo: "num_le (Fin 1 2) (Fin m s)" and hi: "num_le (Fin m s) (Fin 99999999999 2)"
    and n: "norm_dec m s = (m', s')"
  shows "0 < m' \<and> num_to_string (Fin m s) = plain_notation m' s'"
proof -
  from norm_dec_value [OF n] have s': "s' \<le> s" and m: "m = m' * 10 ^ (s - s')" by simp_all
  define P :: int where "P = 10 ^ (s - s')"
  have P: "0 < P" by (simp add: P_def)
  have pow: "(10::int) ^ s = 10 ^ s' * P"
    using s' by (simp add: P_def power_add [symmetric])
  from lo have "(10::int) ^ s \<le> m * 100" by simp
  then have "10 ^ s' * P \<le> (m' * 100) * P" by (simp add: pow m P_def mult_ac)
  with P have lo': "10 ^ s' \<le> m' * 100"
    using mult_le_cancel_right [of "10 ^ s'" P "m' * 100"] by simp
  from hi have "m * 100 \<le> 99999999999 * 10 ^ s" by simp
  then have "(m' * 100) * P \<le> (99999999999 * 10 ^ s') * P" by (simp add: pow m P_def mult_ac)
  with P have hi': "m' * 100 \<le> 99999999999 * 10 ^ s'"
    using mult_le_cancel_right [of "m' * 100" P "99999999999 * 10 ^ s'"] by simp
  have pos10: "(0::int) < 10 ^ s'" by simp
  from lo' pos10 have pos: "0 < m'" by (smt (verit) mult_pos_pos zero_less_mult_pos2)
  from hi' pos10 have "m' * 100 < (10 ^ s' * 1000000000000000000000) * 100" by linarith
  then have small: "m' < 10 ^ (s' + 21)" by (simp add: power_add)
  from lo' pos have big: "10 ^ s' \<le> m' * 10 ^ 6" by simp
  show ?thesis
    using pos small big by (simp add: n)
qed

lemma amount_decimals_in_range:
  assumes "num_le (Fin 1 2) (Fin m s)" and "num_le (Fin m s) (Fin 99999999999 2)"
  shows "amount_decimals (JNum (Fin m s)) = None \<longleftrightarrow> snd (norm_dec m s) \<le> 2"
proof -
  obtain m' s' where n: "norm_dec m s = (m', s')" by (cases "norm_dec m s")
  from amount_prints_plain [OF assms n]
  have pos: "0 < m'" and "num_to_string (Fin m s) = plain_notation m' s'" by simp_all
  then have str: "js_to_string (JNum (Fin m s)) = plain_notation m' s'" by simp
  have ip: "CHR ''.'' \<notin> set (show_nat (m' div 10 ^ s'))"
    using pos by (intro point_not_in_show_nat) (simp add: pos_imp_zdiv_nonneg_iff)
  show ?thesis
  proof (cases "s' = 0")
    case True
    with ip show ?thesis
      by (simp add: amount_decimals_def str plain_notation_def n split_at_absent
            del: js_to_string.simps)
  next
    case False
    with ip show ?thesis
      by (simp add: amount_decimals_def str plain_notation_def n split_at_once
            point_not_in_digits_fixed length_digits_fixed digits_fixed_Nil
            del: js_to_string.simps)
  qed
qed

section \<open>Running a chain of middleware\<close>

lemma income_post_chain_split:
  "income_post_chain = before_business @ business_rules @ [HandleValidationErrors]"
  by (simp add: income_post_chain_def before_business_def business_rules_def)

lemma run_chain_Cons [simp]:
  "run_chain L W (m # ms) r =
     (case run_mw L W m r of
        Next r' \<Rightarrow> (m # fst (run_chain L W ms r'), snd (run_chain L W ms r'))
      | out \<Rightarrow> ([m], out))"
  by (simp split: outcome.splits prod.splits)

declare run_chain.simps(2) [simp del]

lemma run_chain_append:
  "run_chain L W (xs @ ys) r =
     (case snd (run_chain L W xs r) of
        Next r' \<Rightarrow> (fst (run_chain L W xs r) @ fst (run_chain L W ys r'),
                    snd (run_chain L W ys r'))
      | out \<Rightarrow> run_chain L W xs r)"
proof (induction xs arbitrary: r)
  case Nil
  show ?case by simp
next
  case (Cons m xs)
  show ?case
  proof (cases "run_mw L W m r")
    case (Next r1)
    show ?thesis
      using Next by (simp add: Cons.IH [of r1] split: outcome.splits)
  next
    case (Respond res)
    then show ?thesis by simp
  next
    case Throw
    then show ?thesis by simp
  qed
qed

lemma run_chain_passed:
  "passed (snd (run_chain L W ms r)) \<Longrightarrow> fst (run_chain L W ms r) = ms"
proof (induction ms arbitrary: r)
  case Nil
  show ?case by simp
next
  case (Cons m ms)
  show ?case
  proof (cases "run_mw L W m r")
    case (Next r1)
    with Cons.prems have "passed (snd (run_chain L W ms r1))" by simp
    then have "fst (run_chain L W ms r1) = ms" by (rule Cons.IH)
    then show ?thesis using Next by simp
  next
    case (Respond res)
    with Cons.prems show ?thesis by simp
  next
    case Throw
    with Cons.prems show ?thesis by simp
  qed
qed

text \<open>The business rules pass the request on as it is.\<close>

lemma business_rule_keeps_request:
  "m \<in> set business_rules \<Longrightarrow> run_mw L W m r = Next r' \<Longrightarrow> r' = r"
  by (auto simp: business_rules_def validateActiveUser_def validateTransactionLimits_def
        validateFinancialConsistency_def validateUserPlanLimits_def validateDataIntegrity_def
        reject_def server_error_def Let_def
      split: option.splits if_splits prod.splits)

lemma run_business_keeps_request:
  "set ms \<subseteq> set business_rules \<Longrightarrow> snd (run_chain L W ms r) = Next r' \<Longrightarrow> r' = r"
proof (induction ms arbitrary: r)
  case Nil
  then show ?case by simp
next
  case (Cons m ms)
  show ?case
  proof (cases "run_mw L W m r")
    case (Next r1)
    with Cons.prems have "r1 = r" using business_rule_keeps_request [of m L W r r1] by simp
    with Cons Next show ?thesis by simp
  next
    case (Respond res)
    with Cons.prems show ?thesis by simp
  next
    case Throw
    with Cons.prems show ?thesis by simp
  qed
qed

lemma snd_run_chain_append:
  "snd (run_chain L W (xs @ ys) r) =
     (case snd (run_chain L W xs r) of Next r' \<Rightarrow> snd (run_chain L W ys r') | out \<Rightarrow> out)"
  by (simp add: run_chain_append split: outcome.splits)

lemma fst_run_chain_append:
  "fst (run_chain L W (xs @ ys) r) =
     (case snd (run_chain L W xs r) of
        Next r' \<Rightarrow> fst (run_chain L W xs r) @ fst (run_chain L W ys r')
      | out \<Rightarrow> fst (run_chain L W xs r))"
  by (simp add: run_chain_append split: outcome.splits)

lemma before_business_step:
  "m \<in> set before_business \<Longrightarrow> early_outcome r (run_mw L W m r)"
  by (auto simp: before_business_def early_outcome_def reject_def
        validateContentType_def limitDataSize_def preventInjection_def sanitizeInput_def
        sanitizeDescription_def sanitizeNotes_def sanitizeTags_def sanitizeDate_def
        sanitizeNumericField_def sanitizeBooleanField_def
        description_chain_def amount_chain_def date_chain_def paymentMethod_chain_def
        notes_chain_def tags_chain_def tagItem_chain_def income_category_chain_def
        isRecurring_chain_def recurringFrequency_chain_def add_errors_def Let_def
      split: option.splits jsval.splits)

lemma before_business_run:
  "set ms \<subseteq> set before_business \<Longrightarrow> early_outcome r (snd (run_chain L W ms r))"
proof (induction ms arbitrary: r)
  case Nil
  show ?case by (simp add: early_outcome_def)
next
  case (Cons m ms)
  then have step: "early_outcome r (run_mw L W m r)"
    by (simp add: before_business_step)
  show ?case
  proof (cases "run_mw L W m r")
    case (Next r1)
    with step have "user_id r1 = user_id r" by (simp add: early_outcome_def)
    moreover from Cons have "early_outcome r1 (snd (run_chain L W ms r1))" by simp
    ultimately show ?thesis
      using Next by (simp add: early_outcome_def split: outcome.splits)
  next
    case (Respond res)
    with step show ?thesis by simp
  next
    case Throw
    with step show ?thesis by simp
  qed
qed

section \<open>The business rules\<close>

lemma validateUserPlanLimits_found:
  assumes "findById W (user_id r) = Some user"
  shows "validateUserPlanLimits W r =
           (if 100 \<le> countActive (user_id r) (incomes W) + countActive (user_id r) (expenses W)
            then reject 429 ''Limite de plan excedido''
            else if (case js_length (get_field (body r) ''tags'') of
                       None \<Rightarrow> False | Some n \<Rightarrow> 5 < n)
            then reject 400 ''Limite de etiquetas excedido''
            else Next r)"
proof -
  have tags: "truthy v \<and> (case js_length v of None \<Rightarrow> False | Some n \<Rightarrow> int n > 5)
                \<longleftrightarrow> (case js_length v of None \<Rightarrow> False | Some n \<Rightarrow> 5 < n)" for v
    by (cases v) auto
  show ?thesis
    using assms tags [of "get_field (body r) ''tags''"]
    by (simp add: validateUserPlanLimits_def plan_of_def planLimits_def)
qed

text \<open>A business rule passes the request on or answers; it never answers 201.\<close>

lemma reject_not_created:
  "reject st msg = Respond res \<Longrightarrow> status res = st"
  by (auto simp: reject_def)

lemma validateActiveUser_outcome:
  "validateActiveUser W r = Next r \<or>
   (\<exists>res. validateActiveUser W r = Respond res \<and> status res \<noteq> 201)"
  by (simp add: validateActiveUser_def reject_def Let_def split: option.splits)

lemma validateTransactionLimits_outcome:
  "validateTransactionLimits L W r = Next r \<or>
   (\<exists>res. validateTransactionLimits L W r = Respond res \<and> status res \<noteq> 201)"
  by (simp add: validateTransactionLimits_def reject_def server_error_def Let_def
      split: option.splits)

lemma validateFinancialConsistency_outcome:
  "validateFinancialConsistency L W r = Next r \<or>
   (\<exists>res. validateFinancialConsistency L W r = Respond res \<and> status res \<noteq> 201)"
  by (simp add: validateFinancialConsistency_def reject_def Let_def)

lemma validateUserPlanLimits_outcome:
  "validateUserPlanLimits W r = Next r \<or>
   (\<exists>res. validateUserPlanLimits W r = Respond res \<and> status res \<noteq> 201)"
  by (simp add: validateUserPlanLimits_def reject_def server_error_def Let_def
      split: option.splits prod.splits)

lemma validateDataIntegrity_outcome:
  "validateDataIntegrity L W r = Next r \<or>
   (\<exists>res. validateDataIntegrity L W r = Respond res \<and> status res \<noteq> 201)"
  by (simp add: validateDataIntegrity_def reject_def server_error_def Let_def
      split: option.splits)

lemma business_rule_outcome:
  "m \<in> set business_rules \<Longrightarrow>
   run_mw L W m r = Next r \<or> (\<exists>res. run_mw L W m r = Respond res \<and> status res \<noteq> 201)"
  using validateActiveUser_outcome [of W r] validateTransactionLimits_outcome [of L W r]
    validateFinancialConsistency_outcome [of L W r] validateUserPlanLimits_outcome [of W r]
    validateDataIntegrity_outcome [of L W r]
  by (auto simp: business_rules_def)

lemma business_rules_outcome:
  "set ms \<subseteq> set business_rules \<Longrightarrow>
   snd (run_chain L W ms r) = Next r \<or>
   (\<exists>res. snd (run_chain L W ms r) = Respond res \<and> status res \<noteq> 201)"
proof (induction ms)
  case Nil
  show ?case by simp
next
  case (Cons m ms)
  then have "run_mw L W m r = Next r \<or> (\<exists>res. run_mw L W m r = Respond res \<and> status res \<noteq> 201)"
    by (simp add: business_rule_outcome)
  then show ?case
  proof
    assume "run_mw L W m r = Next r"
    with Cons show ?thesis by simp
  next
    assume "\<exists>res. run_mw L W m r = Respond res \<and> status res \<noteq> 201"
    then show ?thesis by auto
  qed
qed

lemma business_rules_each_pass:
  "set ms \<subseteq> set business_rules \<Longrightarrow> snd (run_chain L W ms r) = Next r' \<Longrightarrow>
   \<forall>m \<in> set ms. run_mw L W m r = Next r"
proof (induction ms)
  case Nil
  show ?case by simp
next
  case (Cons m ms)
  from Cons.prems(1)
  have "run_mw L W m r = Next r \<or> (\<exists>res. run_mw L W m r = Respond res \<and> status res \<noteq> 201)"
    by (simp add: business_rule_outcome)
  then show ?case
  proof
    assume m: "run_mw L W m r = Next r"
    with Cons.prems have "snd (run_chain L W ms r) = Next r'" by simp
    with Cons have "\<forall>m \<in> set ms. run_mw L W m r = Next r" by simp
    with m show ?thesis by simp
  next
    assume "\<exists>res. run_mw L W m r = Respond res \<and> status res \<noteq> 201"
    with Cons.prems(2) show ?thesis by auto
  qed
qed

lemma business_rules_all_pass:
  assumes "snd (run_chain L W business_rules r) = Next r'"
  shows "validateActiveUser W r = Next r \<and> validateTransactionLimits L W r = Next r \<and>
         validateFinancialConsistency L W r = Next r \<and> validateUserPlanLimits W r = Next r \<and>
         validateDataIntegrity L W r = Next r"
proof -
  from business_rules_each_pass [OF _ assms]
  have each: "\<forall>m \<in> set business_rules. run_mw L W m r = Next r" by simp
  from each have "run_mw L W ValidateActiveUser r = Next r"
    by (simp add: business_rules_def)
  moreover from each have "run_mw L W ValidateTransactionLimits r = Next r"
    by (simp add: business_rules_def)
  moreover from each have "run_mw L W ValidateFinancialConsistency r = Next r"
    by (simp add: business_rules_def)
  moreover from each have "run_mw L W ValidateUserPlanLimits r = Next r"
    by (simp add: business_rules_def)
  moreover from each have "run_mw L W ValidateDataIntegrity r = Next r"
    by (simp add: business_rules_def)
  ultimately show ?thesis by simp
qed

text \<open>Before the business rules the store is not read: only the clock matters.\<close>

lemma before_business_clock:
  "now W' = now W \<Longrightarrow> m \<in> set before_business \<Longrightarrow> run_mw L W' m r = run_mw L W m r"
  by (auto simp: before_business_def date_chain_def)

lemma before_business_run_clock:
  "now W' = now W \<Longrightarrow> set ms \<subseteq> set before_business \<Longrightarrow>
   run_chain L W' ms r = run_chain L W ms r"
proof (induction ms arbitrary: r)
  case Nil
  show ?case by simp
next
  case (Cons m ms)
  from Cons.prems have step: "run_mw L W' m r = run_mw L W m r"
    by (intro before_business_clock) simp_all
  from Cons have ih: "run_chain L W' ms r1 = run_chain L W ms r1" for r1
    by simp
  show ?case
    unfolding run_chain_Cons step by (simp add: ih split: outcome.splits)
qed

text \<open>What an answer 201 says about the run.\<close>

lemma created_income:
  assumes "post_income L W r = (res, W')" and "status res = 201"
    and "snd (run_chain L W before_business r) = Next r1"
  shows "snd (run_chain L W business_rules r1) = Next r1 \<and> verrors r1 = [] \<and>
         (\<exists>income. incomeSchema L W (user_id r1) (body r1) = Some income \<and>
                    W' = W\<lparr>incomes := incomes W @ [income]\<rparr>)"
proof -
  have split: "income_post_chain = before_business @ (business_rules @ [HandleValidationErrors])"
    by (simp add: income_post_chain_split)
  from business_rules_outcome [of business_rules L W r1]
  have "snd (run_chain L W business_rules r1) = Next r1 \<or>
        (\<exists>res. snd (run_chain L W business_rules r1) = Respond res \<and> status res \<noteq> 201)"
    by simp
  then show ?thesis
  proof
    assume biz: "snd (run_chain L W business_rules r1) = Next r1"
    show ?thesis
    proof (cases "verrors r1 = []")
      case True
      with assms biz show ?thesis
        by (auto simp: post_income_def split snd_run_chain_append handleValidationErrors_def
              createIncome_def split: option.splits)
    next
      case False
      with assms biz show ?thesis
        by (auto simp: post_income_def split snd_run_chain_append handleValidationErrors_def)
    qed
  next
    assume "\<exists>res. snd (run_chain L W business_rules r1) = Respond res \<and> status res \<noteq> 201"
    with assms show ?thesis
      by (auto simp: post_income_def split snd_run_chain_append)
  qed
qed

text \<open>The second run of a request that has created an income.\<close>

lemma second_request_business_rules:
  assumes first: "snd (run_chain L W business_rules r1) = Next r1"
    and schema: "incomeSchema L W (user_id r1) (body r1) = Some income"
    and date: "truthy (get_field (body r1) ''date'')"
    and W': "W' = W\<lparr>incomes := incomes W @ [income]\<rparr>"
  shows "list_ex (duplicate_of L r1) (incomes W') \<and>
         validateDataIntegrity L V r1 =
           (if list_ex (duplicate_of L r1) (incomes V) \<or> list_ex (duplicate_of L r1) (expenses V)
            then reject 409 ''Transaccion duplicada'' else Next r1) \<and>
         snd (run_chain L W' business_rules r1) =
           (if below_limits L W' r1 then reject 409 ''Transaccion duplicada''
            else if (case js_new_date L (get_field (body r1) ''date'') of
                       None \<Rightarrow> False
                     | Some d \<Rightarrow> 50 \<le> countDaily W' (user_id r1) (start_of_day L d)
                                          (next_day L (start_of_day L d)))
            then reject 429 ''Limite diario de transacciones excedido''
            else reject 429 ''Limite de plan excedido'')"
proof -
  from business_rules_all_pass [OF first]
  have active: "validateActiveUser W r1 = Next r1"
    and limits: "validateTransactionLimits L W r1 = Next r1"
    and consistent: "validateFinancialConsistency L W r1 = Next r1"
    and plan: "validateUserPlanLimits W r1 = Next r1"
    by simp_all
  from limits obtain d where d: "js_new_date L (get_field (body r1) ''date'') = Some d"
    and amount_ok: "\<not> num_less (Fin 1000000 0) (to_number (get_field (body r1) ''amount''))"
    by (auto simp: validateTransactionLimits_def server_error_def reject_def Let_def
        split: option.splits if_splits)
  from d have defined: "get_field (body r1) ''date'' \<noteq> JUndefined" by auto
  from schema defined d obtain m s c where
    amount: "get_field (body r1) ''amount'' = JNum (Fin m s)"
    and category: "get_field (body r1) ''category'' = JStr c"
    and range: "num_le (Fin 1 2) (Fin m s)"
    and c: "c \<in> set validIncomeCategories"
    and income: "income = \<lparr>t_user = user_id r1, t_amount = Fin m s, t_date = d,
                            t_category = c, t_isActive = True\<rparr>"
    by (auto simp: incomeSchema_def Let_def
        split: jsval.splits jsnum.splits option.splits if_splits)
  have m: "m \<noteq> 0"
  proof
    assume "m = 0"
    with range have "(10::int) ^ s \<le> 0" by simp
    moreover have "(0::int) < 10 ^ s" by simp
    ultimately show False by linarith
  qed
  from c have c_ne: "c \<noteq> []" by (auto simp: validIncomeCategories_def)
  have dup: "duplicate_of L r1 income"
    by (simp add: duplicate_of_def d amount category income same_transaction_def)
  then have ex: "list_ex (duplicate_of L r1) (incomes W')"
    by (simp add: W' list_ex_iff)
  have same: "same_transaction (user_id r1) (Fin m s) d (JStr c) income"
    using dup by (simp add: duplicate_of_def d amount category)
  have check: "validateDataIntegrity L V' r1 =
           (if list_ex (duplicate_of L r1) (incomes V') \<or> list_ex (duplicate_of L r1) (expenses V')
            then reject 409 ''Transaccion duplicada'' else Next r1)" for V'
  proof -
    have "duplicate_of L r1 = same_transaction (user_id r1) (Fin m s) d (JStr c)"
      by (rule ext) (simp add: duplicate_of_def d amount category)
    then show ?thesis
      using date m c_ne
      by (simp add: validateDataIntegrity_def amount category d Let_def)
  qed
  have integrity: "validateDataIntegrity L W' r1 = reject 409 ''Transaccion duplicada''"
    using ex by (simp add: check)
  have "validateActiveUser W' r1 = validateActiveUser W r1"
    by (simp add: validateActiveUser_def findById_def W' Let_def split: option.splits)
  with active have active': "validateActiveUser W' r1 = Next r1" by simp
  have "validateFinancialConsistency L W' r1 = validateFinancialConsistency L W r1"
    by (simp add: validateFinancialConsistency_def W' Let_def split: option.splits)
  with consistent have consistent': "validateFinancialConsistency L W' r1 = Next r1" by simp
  have limits': "validateTransactionLimits L W' r1 =
      (if 50 \<le> countDaily W' (user_id r1) (start_of_day L d) (next_day L (start_of_day L d))
       then reject 429 ''Limite diario de transacciones excedido'' else Next r1)"
    using amount_ok by (simp add: validateTransactionLimits_def d Let_def)
  from plan obtain user where user: "findById W (user_id r1) = Some user"
    by (auto simp: validateUserPlanLimits_def reject_def split: option.splits)
  then have user': "findById W' (user_id r1) = Some user"
    by (simp add: findById_def W')
  from plan have tags: "\<not> (case js_length (get_field (body r1) ''tags'') of
                              None \<Rightarrow> False | Some n \<Rightarrow> 5 < n)"
    unfolding validateUserPlanLimits_found [OF user]
    by (auto simp: reject_def split: if_splits)
  have plan': "validateUserPlanLimits W' r1 =
      (if 100 \<le> countActive (user_id r1) (incomes W') + countActive (user_id r1) (expenses W')
       then reject 429 ''Limite de plan excedido'' else Next r1)"
    unfolding validateUserPlanLimits_found [OF user'] using tags by simp
  have run: "snd (run_chain L W' business_rules r1) =
      (if 50 \<le> countDaily W' (user_id r1) (start_of_day L d) (next_day L (start_of_day L d))
       then reject 429 ''Limite diario de transacciones excedido''
       else if 100 \<le> countActive (user_id r1) (incomes W') + countActive (user_id r1) (expenses W')
       then reject 429 ''Limite de plan excedido''
       else reject 409 ''Transaccion duplicada'')"
    by (simp add: business_rules_def active' limits' consistent' plan' integrity reject_def)
  show ?thesis
    using ex check [of V] by (auto simp: run below_limits_def d)
qed

section \<open>Where the checks do not reach\<close>

text \<open>
  \<open>sanitizeInput\<close> throws exactly when the query holds a string under a key whose value
  in the body is not a string.
\<close>

lemma sanitize_query_None:
  "sanitize_query b q = None \<longleftrightarrow>
     (\<exists>(k, v) \<in> set q. (\<exists>s. v = JStr s) \<and> (\<forall>s. get_field b k \<noteq> JStr s))"
proof (induction q)
  case Nil
  show ?case by simp
next
  case (Cons kv q)
  obtain k v where kv: "kv = (k, v)" by (cases kv)
  show ?case
    unfolding kv using Cons.IH
    by (cases v; cases "get_field b k") auto
qed

lemma sanitizeInput_Throw:
  "sanitizeInput r = Throw \<longleftrightarrow>
     (\<exists>(k, v) \<in> set (query r).
        (\<exists>s. v = JStr s) \<and> (\<forall>s. get_field (trim_strings (body r)) k \<noteq> JStr s))"
proof -
  have "sanitizeInput r = Throw \<longleftrightarrow> sanitize_query (trim_strings (body r)) (query r) = None"
    by (simp add: sanitizeInput_def Let_def split: option.splits)
  then show ?thesis
    by (simp only: sanitize_query_None)
qed

text \<open>
  An absent \<open>recurringFrequency\<close> skips its chain; a draft that is not recurring never
  fails the custom validator.
\<close>

lemma recurringFrequency_chain_absent:
  "get_field (body r) ''recurringFrequency'' = JUndefined \<Longrightarrow> recurringFrequency_chain r = r"
  by (simp add: recurringFrequency_chain_def)

lemma frequency_not_required:
  "\<not> truthy (get_field b ''isRecurring'') \<Longrightarrow> frequency_required b v = None"
  by (simp add: frequency_required_def)

text \<open>
  On the path \<open>/\<close> of a mounted router \<open>validateFinancialConsistency\<close> checks the amount
  and the date only.
\<close>

lemma validateFinancialConsistency_root:
  "path r = ''/'' \<Longrightarrow>
   validateFinancialConsistency L W r =
     (if num_le (to_number (get_field (body r) ''amount'')) (Fin 0 0)
      then reject 400 ''Monto invalido''
      else if (case js_new_date L (get_field (body r) ''date'') of
                 None \<Rightarrow> False | Some d \<Rightarrow> d > now W + 30 * 24 * 60 * 60 * 1000)
      then reject 400 ''Fecha invalida''
      else Next r)"
  by (simp add: validateFinancialConsistency_def Let_def cong: option.case_cong)

lemma mounted_path_root: "mounted_path income_mount ''/api/incomes'' = ''/''"
  by (simp add: mounted_path_def income_mount_def)

section \<open>The sanitizer on the query (C9)\<close>

text \<open>
  C9. The claim: for every raw payload, in body and query parameters, the sanitizer stage
  returns normalized values and never ends the request. \<open>sanitizeInput\<close> reads
  \<open>req.body[key]\<close> where it means \<open>req.query[key]\<close>: a request to create an income with
  the query string \<open>?sortBy=date\<close> and no string \<open>sortBy\<close> in its body makes it throw, the
  pipeline stops at \<open>sanitizeInput\<close>, and the error handler answers 500.
\<close>

theorem sanitizeInput_throws_on_query_string:
  "sanitizeInput (json_post sample_draft [(''sortBy'', JStr ''date'')]) = Throw \<and>
   fst (run_chain utc_lib (sample_world True []) income_post_chain
          (json_post sample_draft [(''sortBy'', JStr ''date'')]))
     = [ValidateContentType, LimitDataSize, PreventInjection, SanitizeInput] \<and>
   status (fst (post_income utc_lib (sample_world True [])
                  (json_post sample_draft [(''sortBy'', JStr ''date'')]))) = 500"
  by code_simp

section \<open>The required frequency (C4)\<close>

text \<open>
  C4. The claim: a draft with \<open>isRecurring = true\<close> and no \<open>recurringFrequency\<close> fails
  schema validation. The chain of \<open>recurringFrequency\<close> is optional, so it is skipped
  when the field is absent and its custom validator never sees the missing value: the
  draft below, recurring and without a frequency, leaves the chain and the whole
  pipeline of the route without one validation error.
\<close>

theorem recurring_without_frequency_passes_schema:
  "get_field (sample_draft @ [(''isRecurring'', JBool True)]) ''recurringFrequency'' = JUndefined \<and>
   verrors (recurringFrequency_chain
              (json_post (sample_draft @ [(''isRecurring'', JBool True)]) [])) = [] \<and>
   (case snd (run_chain utc_lib (sample_world True []) income_post_chain
                (json_post (sample_draft @ [(''isRecurring'', JBool True)]) []))
    of Next r \<Rightarrow> verrors r = [] \<and> get_field (body r) ''isRecurring'' = JBool True
     | _ \<Rightarrow> False)"
  by code_simp

section \<open>The category check of the business layer (C3)\<close>

text \<open>
  C3. The claim: the schema validator and the business rule evaluator each reject a
  category outside the set of the route. \<open>validateFinancialConsistency\<close> looks for
  \<open>/incomes\<close> in \<open>req.path\<close>, which inside the mounted router is \<open>/\<close>: for an income draft
  of category \<open>comida\<close> it passes the request on, and only the schema chain records an
  error.
\<close>

theorem business_category_check_skipped:
  "path (json_post (set_field sample_draft ''category'' (JStr ''comida'')) []) = ''/'' \<and>
   \<not> includes_category validIncomeCategories (JStr ''comida'') \<and>
   validateFinancialConsistency utc_lib (sample_world True [])
       (json_post (set_field sample_draft ''category'' (JStr ''comida'')) [])
     = Next (json_post (set_field sample_draft ''category'' (JStr ''comida'')) []) \<and>
   verrors (income_category_chain
              (json_post (set_field sample_draft ''category'' (JStr ''comida'')) [])) \<noteq> []"
  by code_simp

section \<open>The plan quota (C10)\<close>

text \<open>
  C10. For every request of a principal the store holds, the plan-quota check applies
  the limits of the free plan, whatever the user record: it answers 429 once the active
  incomes and expenses of the principal together reach 100, otherwise 400 when the draft
  carries more than 5 tags, and passes the request on otherwise.
\<close>

theorem plan_limits_free_tier:
  assumes "findById W (user_id r) = Some user"
  shows "validateUserPlanLimits W r =
           (if 100 \<le> countActive (user_id r) (incomes W) + countActive (user_id r) (expenses W)
            then reject 429 ''Limite de plan excedido''
            else if (case js_length (get_field (body r) ''tags'') of
                       None \<Rightarrow> False | Some n \<Rightarrow> 5 < n)
            then reject 400 ''Limite de etiquetas excedido''
            else Next r)"
proof -
  have tags: "truthy v \<and> (case js_length v of None \<Rightarrow> False | Some n \<Rightarrow> int n > 5)
                \<longleftrightarrow> (case js_length v of None \<Rightarrow> False | Some n \<Rightarrow> 5 < n)" for v
    by (cases v) auto
  show ?thesis
    using assms tags [of "get_field (body r) ''tags''"]
    by (simp add: validateUserPlanLimits_def plan_of_def planLimits_def)
qed

theorem plan_limits_free_tier_witness:
  "findById (sample_world True []) (user_id (json_post sample_draft [])) = Some (sample_user True) \<and>
   validateUserPlanLimits (sample_world True [])
       (json_post (sample_draft @ [(''tags'', JArr (replicate 6 (JStr ''a'')))]) [])
     = reject 400 ''Limite de etiquetas excedido''"
proof -
  have u: "findById (sample_world True [])
             (user_id (json_post (sample_draft @ [(''tags'', JArr (replicate 6 (JStr ''a'')))]) []))
           = Some (sample_user True)"
    by code_simp
  have v: "findById (sample_world True []) (user_id (json_post sample_draft [])) = Some (sample_user True)"
    by code_simp
  have c: "countActive 1 [] = 0" by code_simp
  have t: "js_length (get_field (sample_draft @ [(''tags'', JArr (replicate 6 (JStr ''a'')))]) ''tags'') = Some 6"
    by code_simp
  show ?thesis
    using plan_limits_free_tier [OF u] v c t
    by (simp add: json_post_def sample_world_def)
qed

section \<open>The order of the account check and the volume check (C5)\<close>

text \<open>
  C5. For every request to create an income by a principal whose account is not active,
  whatever the number of transactions of the day: the business rules stop at the
  active-account check with 403, before the volume check runs; the response of the route
  is never 429; and it is this 403 whenever the request passes the guards, sanitizers and
  validation chains that come before the business rules.
\<close>

theorem inactive_account_reported_first:
  assumes "findById W (user_id r) = Some user" and "\<not> u_isActive user"
  shows "run_chain L W business_rules r = ([ValidateActiveUser], reject 403 ''Cuenta desactivada'') \<and>
         status (fst (post_income L W r)) \<noteq> 429 \<and>
         (passed (snd (run_chain L W before_business r)) \<longrightarrow>
            post_income L W r =
              (\<lparr>status = 403, error_message = ''Cuenta desactivada'', validationErrors = []\<rparr>, W) \<and>
            fst (run_chain L W income_post_chain r) = before_business @ [ValidateActiveUser])"
proof -
  have inactive: "validateActiveUser W r' = reject 403 ''Cuenta desactivada''"
    if "user_id r' = user_id r" for r'
    using assms that by (simp add: validateActiveUser_def)
  have business: "run_chain L W (business_rules @ [HandleValidationErrors]) r'
                    = ([ValidateActiveUser], reject 403 ''Cuenta desactivada'')"
    if "user_id r' = user_id r" for r'
    using inactive [OF that] by (simp add: business_rules_def reject_def)
  have first: "run_chain L W business_rules r = ([ValidateActiveUser], reject 403 ''Cuenta desactivada'')"
    using inactive [of r] by (simp add: business_rules_def reject_def)
  have early: "early_outcome r (snd (run_chain L W before_business r))"
    by (rule before_business_run) simp
  have split: "income_post_chain = before_business @ (business_rules @ [HandleValidationErrors])"
    by (simp add: income_post_chain_split)
  show ?thesis
  proof (cases "snd (run_chain L W before_business r)")
    case (Next r1)
    with early have uid: "user_id r1 = user_id r" by (simp add: early_outcome_def)
    have tr: "fst (run_chain L W before_business r) = before_business"
      using Next by (simp add: run_chain_passed)
    show ?thesis
      using first Next tr business [OF uid]
      by (simp add: post_income_def split snd_run_chain_append fst_run_chain_append reject_def)
  next
    case (Respond res)
    with early have "status res \<in> {400, 413, 415}" by (simp add: early_outcome_def)
    then show ?thesis
      using first Respond by (auto simp: post_income_def split snd_run_chain_append)
  next
    case Throw
    then show ?thesis
      using first by (simp add: post_income_def split snd_run_chain_append errorHandler_def)
  qed
qed

theorem inactive_account_reported_first_witness:
  "findById (sample_world False (replicate 50 other_income)) (user_id (json_post sample_draft []))
     = Some (sample_user False) \<and>
   \<not> u_isActive (sample_user False) \<and>
   countDaily (sample_world False (replicate 50 other_income)) 1
     (start_of_day utc_lib 1700000000000)
     (next_day utc_lib (start_of_day utc_lib 1700000000000)) = 50 \<and>
   passed (snd (run_chain utc_lib (sample_world False (replicate 50 other_income))
                  before_business (json_post sample_draft []))) \<and>
   post_income utc_lib (sample_world False (replicate 50 other_income)) (json_post sample_draft [])
     = (\<lparr>status = 403, error_message = ''Cuenta desactivada'', validationErrors = []\<rparr>,
        sample_world False (replicate 50 other_income))"
proof -
  have u: "findById (sample_world False (replicate 50 other_income))
             (user_id (json_post sample_draft [])) = Some (sample_user False)"
    by code_simp
  have i: "\<not> u_isActive (sample_user False)"
    by code_simp
  have c: "countDaily (sample_world False (replicate 50 other_income)) 1
             (start_of_day utc_lib 1700000000000)
             (next_day utc_lib (start_of_day utc_lib 1700000000000)) = 50"
    by code_simp
  have p: "passed (snd (run_chain utc_lib (sample_world False (replicate 50 other_income))
                          before_business (json_post sample_draft [])))"
    by code_simp
  show ?thesis
    using inactive_account_reported_first [OF u i, of utc_lib] u i c p by simp
qed

section \<open>Validation errors and the business rules (C1)\<close>




section \<open>The pipeline of the mutating routes (C2)\<close>

text \<open>
  C2, as claimed: every request that creates or updates an income or an expense passes
  the content-type and size guard, the injection guard, the sanitizer, the schema
  validator and the business rules, in this order. It fails for the creation of an
  expense: the array of that route holds eleven validation chains and nothing else.
\<close>

theorem expense_create_has_no_pipeline:
  "route_stages ExpenseCreate = replicate 11 SchemaRule \<and>
   \<not> is_subseq pipeline_order (route_stages ExpenseCreate)"
  by code_simp

text \<open>
  C2, amended: the route that creates an income holds, in this order, the two guards of
  content type and size, the injection guard, seven sanitizers, ten validation chains,
  five business rules and the responder of the validation errors, and a request reaches
  the handler only after each of them has run and passed, in this order. The routes that
  update an income and that create or update an expense hold validation chains only.
\<close>

theorem income_create_pipeline_order:
  "route_stages IncomeCreate =
     [ContentSizeGuard, ContentSizeGuard, InjectionGuard] @ replicate 7 Sanitizer @
     replicate 10 SchemaRule @ replicate 5 BusinessRule @ [ValidationResponder] \<and>
   is_subseq pipeline_order (route_stages IncomeCreate) \<and>
   (passed (snd (run_chain L W income_post_chain r)) \<longrightarrow>
      fst (run_chain L W income_post_chain r) = income_post_chain \<and>
      map stage_of (fst (run_chain L W income_post_chain r)) = route_stages IncomeCreate) \<and>
   (\<rho> \<noteq> IncomeCreate \<longrightarrow> set (route_stages \<rho>) = {SchemaRule})"
proof -
  have stages: "route_stages IncomeCreate =
     [ContentSizeGuard, ContentSizeGuard, InjectionGuard] @ replicate 7 Sanitizer @
     replicate 10 SchemaRule @ replicate 5 BusinessRule @ [ValidationResponder]"
    by code_simp
  have order: "is_subseq pipeline_order (route_stages IncomeCreate)"
    by code_simp
  have others: "set (route_stages \<rho>) = {SchemaRule}" if "\<rho> \<noteq> IncomeCreate"
    using that by (cases \<rho>) (simp_all add: income_put_fields_def expense_fields_def)
  have run: "fst (run_chain L W income_post_chain r) = income_post_chain"
    if "passed (snd (run_chain L W income_post_chain r))"
    using that by (rule run_chain_passed)
  show ?thesis
    using stages order others run by simp
qed

theorem income_create_pipeline_order_witness:
  "passed (snd (run_chain utc_lib (sample_world True []) income_post_chain
                  (json_post sample_draft []))) \<and>
   map stage_of (fst (run_chain utc_lib (sample_world True []) income_post_chain
                        (json_post sample_draft []))) = route_stages IncomeCreate \<and>
   ExpenseUpdate \<noteq> IncomeCreate \<and>
   set (route_stages ExpenseUpdate) = {SchemaRule}"
proof -
  have p: "passed (snd (run_chain utc_lib (sample_world True []) income_post_chain
                          (json_post sample_draft [])))"
    by code_simp
  show ?thesis
    using income_create_pipeline_order
            [of utc_lib "sample_world True []" "json_post sample_draft []" ExpenseUpdate] p
    by simp
qed

section \<open>Running the sanitizer twice (C8)\<close>

text \<open>
  C8, as claimed: running the sanitizer again on a sanitized payload changes nothing, for
  every payload. It fails for a description that holds an ampersand: the first run
  writes \<open>&amp;\<close>, and the second run escapes the ampersand of that entity again.
\<close>

theorem escaping_twice_differs:
  "twice sanitizeDescription (json_post ampersand_draft [])
     \<noteq> sanitizeDescription (json_post ampersand_draft []) \<and>
   sanitizeDescription (json_post ampersand_draft [])
     = Next (json_post (set_field sample_draft ''description'' (JStr ''Tom &amp; Jerry'')) []) \<and>
   twice sanitizeDescription (json_post ampersand_draft [])
     = Next (json_post (set_field sample_draft ''description'' (JStr ''Tom &amp;amp; Jerry'')) [])"
proof -
  have one: "sanitizeDescription (json_post ampersand_draft [])
     = Next (json_post (set_field sample_draft ''description'' (JStr ''Tom &amp; Jerry'')) [])"
    by code_simp
  have two: "twice sanitizeDescription (json_post ampersand_draft [])
     = Next (json_post (set_field sample_draft ''description'' (JStr ''Tom &amp;amp; Jerry'')) [])"
    by code_simp
  have "get_field (set_field sample_draft ''description'' (JStr ''Tom &amp; Jerry'')) ''description''
        \<noteq> get_field (set_field sample_draft ''description'' (JStr ''Tom &amp;amp; Jerry''))
            ''description''"
    by (simp add: get_field_set_field)
  then have "json_post (set_field sample_draft ''description'' (JStr ''Tom &amp; Jerry'')) []
        \<noteq> json_post (set_field sample_draft ''description'' (JStr ''Tom &amp;amp; Jerry'')) []"
    by (auto simp: json_post_def)
  with one two show ?thesis by simp
qed

text \<open>
  C8, amended: for every payload, a second run of \<open>sanitizeInput\<close> (trimming) and of the
  tag sanitizer (trimming, lower-casing, dropping empty tags) yields the payload of the
  first run; a second run of the sanitizer of the description or of the notes does so
  when the field holds none of the characters that \<open>escape\<close> replaces and no control
  character that \<open>stripLow\<close> removes.
\<close>

theorem sanitizer_idempotent_on_plain_text:
  "twice sanitizeInput r = sanitizeInput r \<and>
   twice sanitizeTags r = sanitizeTags r \<and>
   (plain_value (get_field (body r) ''description'') \<longrightarrow>
      twice sanitizeDescription r = sanitizeDescription r) \<and>
   (plain_value (get_field (body r) ''notes'') \<longrightarrow>
      twice sanitizeNotes r = sanitizeNotes r)"
proof -
  have a: "twice sanitizeInput r = sanitizeInput r"
    by (cases "sanitizeInput r") (simp_all add: twice_def sanitizeInput_idem)
  have b: "twice sanitizeTags r = sanitizeTags r"
    by (cases "sanitizeTags r") (simp_all add: twice_def sanitizeTags_idem)
  have c: "twice sanitizeDescription r = sanitizeDescription r"
    if "plain_value (get_field (body r) ''description'')"
    by (cases "sanitizeDescription r") (simp_all add: twice_def sanitizeDescription_idem [OF that])
  have d: "twice sanitizeNotes r = sanitizeNotes r"
    if "plain_value (get_field (body r) ''notes'')"
    by (cases "sanitizeNotes r") (simp_all add: twice_def sanitizeNotes_idem [OF that])
  show ?thesis using a b c d by simp
qed

theorem sanitizer_idempotent_on_plain_text_witness:
  "plain_value (get_field (body (json_post untrimmed_draft [])) ''description'') \<and>
   plain_value (get_field (body (json_post untrimmed_draft [])) ''notes'') \<and>
   sanitizeDescription (json_post untrimmed_draft []) \<noteq> Next (json_post untrimmed_draft []) \<and>
   twice sanitizeDescription (json_post untrimmed_draft [])
     = sanitizeDescription (json_post untrimmed_draft []) \<and>
   twice sanitizeNotes (json_post untrimmed_draft []) = sanitizeNotes (json_post untrimmed_draft []) \<and>
   twice sanitizeTags (json_post untrimmed_draft [])
     = Next (json_post (set_field untrimmed_draft ''tags'' (JArr [JStr ''work'', JStr ''extra''])) [])"
proof -
  have p: "plain_value (get_field (body (json_post untrimmed_draft [])) ''description'')"
    by code_simp
  have q: "plain_value (get_field (body (json_post untrimmed_draft [])) ''notes'')"
    by code_simp
  have t: "sanitizeTags (json_post untrimmed_draft [])
     = Next (json_post (set_field untrimmed_draft ''tags'' (JArr [JStr ''work'', JStr ''extra''])) [])"
    by code_simp
  have d: "sanitizeDescription (json_post untrimmed_draft [])
     = Next (json_post (set_field untrimmed_draft ''description'' (JStr ''Test'')) [])"
    by code_simp
  have "get_field (set_field untrimmed_draft ''description'' (JStr ''Test'')) ''description''
          \<noteq> get_field untrimmed_draft ''description''"
    unfolding get_field_set_field by code_simp
  then have ne: "json_post (set_field untrimmed_draft ''description'' (JStr ''Test'')) []
          \<noteq> json_post untrimmed_draft []"
    by (auto simp: json_post_def)
  show ?thesis
    using sanitizer_idempotent_on_plain_text [of "json_post untrimmed_draft []"] p q t d ne
    by simp
qed

section \<open>The decimals of an amount (C7)\<close>




section \<open>Duplicate transactions (C6)\<close>




end
